theory Spec2Isabelle
  imports Complex_Main
begin

section \<open>The draw pass and the renderer of mol-canvas3d / mol-gl\<close>

text \<open>
  A shallow embedding of \<^verbatim>\<open>src/mol-canvas3d/passes/draw.ts\<close> (the class
  \<^verbatim>\<open>DrawPass\<close>) and of \<^verbatim>\<open>src/mol-gl/renderer.ts\<close> (the closure built by
  \<^verbatim>\<open>Renderer.create\<close>).

  \<^item> A JavaScript \<^verbatim>\<open>number\<close> is a \<open>real\<close>: rounding and NaN are not modelled.
  \<^item> Renderables are mutable objects shared between the scene and the renderer; they
    live in a heap (\<open>ref \<Rightarrow> renderable\<close>) and a group lists references.
  \<^item> The variables captured by the closure of \<^verbatim>\<open>Renderer.create\<close>, the fields of
    \<^verbatim>\<open>ctx.state\<close> that the code reads, the heap and the sequence of commands issued
    to \<^verbatim>\<open>gl\<close>, \<^verbatim>\<open>state\<close>, programs, render items and render targets (the trace) form
    one record that every operation takes and returns.
  \<^item> Commands are appended to the trace in program order.
  \<^item> \<^verbatim>\<open>throw\<close> is the left injection of a sum.
\<close>

subsection \<open>Values\<close>

type_synonym ref = nat
type_synonym vec = "real list"

text \<open>
  Modelled from the spec: \<^verbatim>\<open>clamp\<close> of \<^verbatim>\<open>mol-math/interpolate\<close> is imported by
  the renderer and is not among the sources; the classification rule reads
  \<^verbatim>\<open>alpha = clamp(object.alpha * object.alphaFactor, 0, 1)\<close>, the value limited to the
  interval from the second to the third argument.
\<close>

definition clamp :: "real \<Rightarrow> real \<Rightarrow> real \<Rightarrow> real" where
  "clamp v lo hi = max lo (min hi v)"

text \<open>\<^verbatim>\<open>createNullTexture\<close> and the textures of the draw pass.\<close>

datatype texture = NullTexture | Texture nat

text \<open>
  Modelled from the spec: \<^verbatim>\<open>ValueCell\<close> of \<^verbatim>\<open>mol-util\<close> is not among the sources.
  A cell is a typed slot with a version; \<^verbatim>\<open>update\<close> stores the value and bumps the
  version, \<^verbatim>\<open>updateIfChanged\<close> does so only when the value differs (an explicit
  "changed" comparison).
\<close>

datatype uvalue = UNumber real | UBoolean bool | UVec vec

record valueCell =
  cellValue :: uvalue
  cellVersion :: nat

definition ValueCell_create :: "uvalue \<Rightarrow> valueCell" where
  "ValueCell_create v = \<lparr> cellValue = v, cellVersion = 0 \<rparr>"

definition ValueCell_update :: "string \<Rightarrow> uvalue \<Rightarrow> (string \<Rightarrow> valueCell) \<Rightarrow> (string \<Rightarrow> valueCell)" where
  "ValueCell_update k v cells = cells(k := \<lparr> cellValue = v, cellVersion = Suc (cellVersion (cells k)) \<rparr>)"

definition ValueCell_updateIfChanged :: "string \<Rightarrow> uvalue \<Rightarrow> (string \<Rightarrow> valueCell) \<Rightarrow> (string \<Rightarrow> valueCell)" where
  "ValueCell_updateIfChanged k v cells =
     (if cellValue (cells k) \<noteq> v then ValueCell_update k v cells else cells)"

text \<open>
  Modelled from the spec: \<^verbatim>\<open>arrayMapUpsert\<close> of \<^verbatim>\<open>mol-util/array\<close> is not among the
  sources; it replaces the entry of a key in a list of pairs, or appends one.
\<close>

fun arrayMapUpsert :: "(string \<times> texture) list \<Rightarrow> string \<Rightarrow> texture \<Rightarrow> (string \<times> texture) list" where
  "arrayMapUpsert [] k v = [(k, v)]"
| "arrayMapUpsert ((k', v') # xs) k v =
     (if k' = k then (k, v) # xs else (k', v') # arrayMapUpsert xs k v)"

subsection \<open>Renderables, groups, scenes, cameras\<close>

text \<open>The fields of \<^verbatim>\<open>r.state\<close> and \<^verbatim>\<open>r.values\<close> that the renderer reads. An optional
  cell (\<^verbatim>\<open>r.values.dRenderMode?\<close>) is an option.\<close>

record renderableState =
  visible :: bool
  pickable :: bool
  noClip :: bool
  colorOnly :: bool
  opaque :: bool
  writeDepth :: bool
  alphaFactor :: real

record renderableValues =
  dClipObjectCount :: nat
  dClipVariant :: string
  dRenderMode :: "string option"
  uAlpha :: real
  dDoubleSided :: "bool option"
  hasReflection :: bool
  dFlipSided :: "bool option"
  alpha :: real
  transparencyAverage :: real
  dPointFilledCircle :: "bool option"
  dXrayShaded :: "bool option"
  uBackgroundColor :: "vec option"

record renderable =
  rstate :: renderableState
  rvalues :: renderableValues

record group =
  gview :: vec
  renderables :: "ref list"

text \<open>A \<^verbatim>\<open>Scene\<close> is itself a group (its own view and renderables) and holds the
  groups \<^verbatim>\<open>primitives\<close> and \<^verbatim>\<open>volumes\<close>.\<close>

record scene = group +
  primitives :: group
  volumes :: group

definition sceneGroup :: "scene \<Rightarrow> group" where
  "sceneGroup sc = \<lparr> gview = gview sc, renderables = renderables sc \<rparr>"

record viewport =
  vx :: real
  vy :: real
  vwidth :: real
  vheight :: real

record viewOffset =
  voEnabled :: bool
  offsetX :: real
  offsetY :: real

record cameraState =
  mode :: string
  position :: vec
  target :: vec

record camera =
  cview :: vec
  cprojection :: vec
  cviewport :: viewport
  cstate :: cameraState
  cviewOffset :: viewOffset
  near :: real
  far :: real
  fogNear :: real
  fogFar :: real

text \<open>\<^verbatim>\<open>Camera | StereoCamera\<close>, told apart by \<^verbatim>\<open>StereoCamera.is\<close>.\<close>

datatype cameraArg = Mono camera | Stereo camera camera

subsection \<open>Renderer configuration\<close>

record styleParams =
  lightIntensity :: real
  ambientIntensity :: real
  metalness :: real
  roughness :: real
  reflectivity :: real

text \<open>\<^verbatim>\<open>RendererProps['style']\<close>: a name and, for \<^verbatim>\<open>custom\<close>, the five numbers.\<close>

datatype styleProp = Custom styleParams | Flat | Matte | Glossy | Metallic | Plastic

record clipRotation =
  axis :: vec
  angle :: real

record clipObjectProp =
  ctype :: string
  cposition :: vec
  crotation :: clipRotation
  cscale :: vec

record clipProp =
  pvariant :: string
  pobjects :: "clipObjectProp list"

record rendererProps =
  backgroundColor :: real
  pickingAlphaThreshold :: real
  interiorDarkening :: real
  interiorColorFlag :: bool
  interiorColor :: real
  highlightColor :: real
  selectColor :: real
  pstyle :: styleProp
  pclip :: clipProp

text \<open>\<^verbatim>\<open>Partial<RendererProps>\<close>: an absent field is \<^verbatim>\<open>undefined\<close>.\<close>

record partialProps =
  backgroundColor' :: "real option"
  pickingAlphaThreshold' :: "real option"
  interiorDarkening' :: "real option"
  interiorColorFlag' :: "bool option"
  interiorColor' :: "real option"
  highlightColor' :: "real option"
  selectColor' :: "real option"
  pstyle' :: "styleProp option"
  pclip' :: "clipProp option"

text \<open>The type \<^verbatim>\<open>Clip\<close> of the renderer.\<close>

record clipObjects =
  ccount :: nat
  otype :: vec
  oposition :: vec
  orotation :: vec
  oscale :: vec

record clip =
  variant :: string
  objects :: clipObjects

subsection \<open>Commands\<close>

datatype cap = BLEND | DEPTH_TEST | CULL_FACE | SCISSOR_TEST

datatype glenum = CCW | CW | FRONT | BACK | ONE | SRC_ALPHA | ONE_MINUS_SRC_ALPHA

text \<open>
  One constructor for each call that leaves the modelled code: on \<^verbatim>\<open>state\<close>
  and \<^verbatim>\<open>gl\<close>, on a program (\<^verbatim>\<open>use\<close>, \<^verbatim>\<open>setUniforms(globalUniformList)\<close>), on a
  renderable (\<^verbatim>\<open>update\<close>, \<^verbatim>\<open>render\<close>), on a render target or texture of the draw
  pass, on the depth-merge renderable, on the order-independent pass and on the helper.
\<close>

datatype event =
    Enable cap
  | Disable cap
  | DepthMask bool
  | ColorMask bool bool bool bool
  | FrontFace glenum
  | CullFace glenum
  | BlendFunc glenum glenum
  | BlendFuncSeparate glenum glenum glenum glenum
  | ClearColor real real real real
  | Clear bool bool
  | GlViewport real real real real
  | GlScissor real real real real
  | UseProgram int
  | SetGlobalUniforms int
  | UpdateRenderable ref
  | Render ref string "(string \<times> texture) list"
  | BindTarget nat
  | UnbindFramebuffer
  | AttachFramebuffer texture nat string
  | DepthMergeUpdate
  | DepthMergeRender
  | WboitBind
  | WboitRender viewport
  | SyncVisibility
  | Flush

subsection \<open>Code outside the sources\<close>

text \<open>
  Functions of other modules whose results the modelled code stores or compares but
  never inspects. They are parameters of the model.

  \<^item> \<open>getProgram a r v\<close>: the id of \<^verbatim>\<open>r.getProgram(v)\<close> for the renderable at \<open>a\<close> with
    the contents \<open>r\<close> (its defines select the program);
  \<^item> \<open>Mat4_mul\<close>, \<open>Mat4_invert\<close>, \<open>Vec3_normalize\<close>, \<open>Vec3_sub\<close>: linear algebra of
    \<^verbatim>\<open>mol-math\<close>;
  \<^item> \<open>Color_toVec3Normalized\<close>, \<open>Color_fromNormalizedRgb\<close>: \<^verbatim>\<open>mol-util/color\<close>;
  \<^item> \<open>Quat_setAxisAngle\<close>, \<open>degToRad\<close>, \<open>Clipping_Type\<close>: used by \<^verbatim>\<open>getClip\<close>;
  \<^item> \<open>syncVisibility\<close>: the effect of \<^verbatim>\<open>helper.debug.syncVisibility()\<close> on the heap;
  \<^item> \<open>helperCameraUpdate\<close>: the camera of the camera helper after
    \<^verbatim>\<open>helper.camera.update(camera)\<close>.
\<close>

record externals =
  getProgram :: "ref \<Rightarrow> renderable \<Rightarrow> string \<Rightarrow> int"
  Mat4_mul :: "vec \<Rightarrow> vec \<Rightarrow> vec"
  Mat4_invert :: "vec \<Rightarrow> vec"
  Vec3_normalize :: "vec \<Rightarrow> vec"
  Vec3_sub :: "vec \<Rightarrow> vec \<Rightarrow> vec"
  Color_toVec3Normalized :: "real \<Rightarrow> vec"
  Color_fromNormalizedRgb :: "real \<Rightarrow> real \<Rightarrow> real \<Rightarrow> real"
  Quat_setAxisAngle :: "vec \<Rightarrow> real \<Rightarrow> vec"
  degToRad :: "real \<Rightarrow> real"
  Clipping_Type :: "string \<Rightarrow> real"
  syncVisibility :: "(ref \<Rightarrow> renderable) \<Rightarrow> (ref \<Rightarrow> renderable)"
  helperCameraUpdate :: "camera \<Rightarrow> camera \<Rightarrow> camera"

subsection \<open>The renderer\<close>

text \<open>
  The closure of \<^verbatim>\<open>Renderer.create\<close>: \<open>props\<close> is the variable \<^verbatim>\<open>p\<close>,
  \<open>rviewport\<close> the variable \<^verbatim>\<open>viewport\<close>. The matrices and vectors that the closure
  keeps only as the storage of a uniform cell are the values of those cells.
  \<open>currentProgramId\<close> and \<open>currentRenderItemId\<close> are fields of \<^verbatim>\<open>ctx.state\<close>;
  \<open>fragDepth\<close> is \<^verbatim>\<open>ctx.extensions.fragDepth\<close>.
\<close>

record renderer =
  props :: rendererProps
  style :: styleParams
  rclip :: clip
  rviewport :: viewport
  drawingBufferSize :: vec
  bgColor :: vec
  transparentBackground :: bool
  sharedTexturesList :: "(string \<times> texture) list"
  globalUniforms :: "string \<Rightarrow> valueCell"
  globalUniformsNeedUpdate :: bool
  fragDepth :: bool
  currentProgramId :: int
  currentRenderItemId :: int
  heap :: "ref \<Rightarrow> renderable"
  trace :: "event list"

definition emit :: "event list \<Rightarrow> renderer \<Rightarrow> renderer" where
  "emit es s = s\<lparr> trace := trace s @ es \<rparr>"

definition updateUniforms :: "((string \<Rightarrow> valueCell) \<Rightarrow> (string \<Rightarrow> valueCell)) \<Rightarrow> renderer \<Rightarrow> renderer" where
  "updateUniforms f s = s\<lparr> globalUniforms := f (globalUniforms s) \<rparr>"

text \<open>\<^verbatim>\<open>variant[0] === 'p'\<close>\<close>

definition isPickVariant :: "string \<Rightarrow> bool" where
  "isPickVariant v = (case v of [] \<Rightarrow> False | c # _ \<Rightarrow> c = CHR ''p'')"

text \<open>The clip defines of \<^verbatim>\<open>renderObject\<close>: the renderable with its defines brought
  in line with the clip settings, and \<^verbatim>\<open>definesNeedUpdate\<close>.\<close>

definition syncClipDefines :: "clip \<Rightarrow> renderable \<Rightarrow> renderable \<times> bool" where
  "syncClipDefines c r =
     (if noClip (rstate r) then
        (if dClipObjectCount (rvalues r) \<noteq> 0
         then (r\<lparr> rvalues := (rvalues r)\<lparr> dClipObjectCount := 0 \<rparr> \<rparr>, True)
         else (r, False))
      else
        (let (r1, n1) =
               (if dClipObjectCount (rvalues r) \<noteq> ccount (objects c)
                then (r\<lparr> rvalues := (rvalues r)\<lparr> dClipObjectCount := ccount (objects c) \<rparr> \<rparr>, True)
                else (r, False))
         in if dClipVariant (rvalues r1) \<noteq> variant c
            then (r1\<lparr> rvalues := (rvalues r1)\<lparr> dClipVariant := variant c \<rparr> \<rparr>, True)
            else (r1, n1)))"

text \<open>The face, cull and depth commands that \<^verbatim>\<open>renderObject\<close> issues before the draw.\<close>

definition drawStateEvents :: "bool \<Rightarrow> string \<Rightarrow> renderableValues \<Rightarrow> event list" where
  "drawStateEvents fragDepthExt v vals =
     (if dRenderMode vals \<noteq> None then
        [Disable CULL_FACE, FrontFace CCW] @
        (if v = ''colorBlended'' then
           (if dRenderMode vals = Some ''volume'' \<or> \<not> fragDepthExt
            then [Disable DEPTH_TEST, DepthMask False]
            else [Enable DEPTH_TEST, DepthMask (uAlpha vals = 1)])
         else [])
      else
        (case dDoubleSided vals of
           Some d \<Rightarrow> (if d \<or> hasReflection vals then [Disable CULL_FACE] else [Enable CULL_FACE])
         | None \<Rightarrow> [Disable CULL_FACE]) @
        (case dFlipSided vals of
           Some f \<Rightarrow> (if f then [FrontFace CW, CullFace FRONT] else [FrontFace CCW, CullFace BACK])
         | None \<Rightarrow> [FrontFace CCW, CullFace BACK]))"

text \<open>
  \<^verbatim>\<open>renderObject\<close>. Modelled from the spec: \<^verbatim>\<open>program.use()\<close> makes the program the
  bound one (\<^verbatim>\<open>state.currentProgramId\<close>, "the last-bound program id"), and
  \<^verbatim>\<open>r.render\<close> draws with that program and leaves the marker as it is; neither
  \<^verbatim>\<open>webgl/program\<close> nor \<^verbatim>\<open>webgl/render-item\<close> is among the sources.
\<close>

definition renderObject :: "externals \<Rightarrow> ref \<Rightarrow> string \<Rightarrow> renderer \<Rightarrow> renderer" where
  "renderObject ext a v s =
     (let r0 = heap s a in
      if \<not> visible (rstate r0) \<or> (\<not> pickable (rstate r0) \<and> isPickVariant v) then s
      else
        let (r, definesNeedUpdate) = syncClipDefines (rclip s) r0;
            s1 = s\<lparr> heap := (heap s)(a := r) \<rparr>;
            s2 = (if definesNeedUpdate then emit [UpdateRenderable a] s1 else s1);
            programId = getProgram ext a r v;
            s3 = (if currentProgramId s2 \<noteq> programId
                  then (emit [UseProgram programId] s2)
                         \<lparr> globalUniformsNeedUpdate := True, currentProgramId := programId \<rparr>
                  else s2);
            s4 = (if globalUniformsNeedUpdate s3
                  then (emit [SetGlobalUniforms programId] s3)\<lparr> globalUniformsNeedUpdate := False \<rparr>
                  else s3);
            s5 = emit (drawStateEvents (fragDepth s4) v (rvalues r)) s4
        in emit [Render a v (sharedTexturesList s5)] s5)"

text \<open>
  \<^verbatim>\<open>for (let i = 0, il = renderables.length; i < il; ++i) { const r = renderables[i];
  if (cond(r)) renderObject(r, variant); }\<close>: the loop of every pass. The condition is
  read from the object as it is when the loop reaches it.
\<close>

fun forEachRenderable :: "externals \<Rightarrow> (renderable \<Rightarrow> bool) \<Rightarrow> string \<Rightarrow> ref list \<Rightarrow> renderer \<Rightarrow> renderer" where
  "forEachRenderable ext cond v [] s = s"
| "forEachRenderable ext cond v (a # as) s =
     forEachRenderable ext cond v as (if cond (heap s a) then renderObject ext a v s else s)"

definition update :: "externals \<Rightarrow> camera \<Rightarrow> renderer \<Rightarrow> renderer" where
  "update ext cam s =
     updateUniforms
       (ValueCell_updateIfChanged ''uTransparentBackground'' (UBoolean (transparentBackground s)) \<circ>
        ValueCell_updateIfChanged ''uFogNear'' (UNumber (fogNear cam)) \<circ>
        ValueCell_updateIfChanged ''uFogFar'' (UNumber (fogFar cam)) \<circ>
        ValueCell_updateIfChanged ''uNear'' (UNumber (near cam)) \<circ>
        ValueCell_updateIfChanged ''uFar'' (UNumber (far cam)) \<circ>
        ValueCell_update ''uCameraDir''
          (UVec (Vec3_normalize ext (Vec3_sub ext (target (cstate cam)) (position (cstate cam))))) \<circ>
        ValueCell_update ''uCameraPosition'' (UVec (position (cstate cam))) \<circ>
        ValueCell_update ''uViewOffset''
          (UVec (if voEnabled (cviewOffset cam)
                 then [offsetX (cviewOffset cam) * 16, offsetY (cviewOffset cam) * 16]
                 else [0, 0])) \<circ>
        ValueCell_updateIfChanged ''uIsOrtho''
          (UNumber (if mode (cstate cam) = ''orthographic'' then 1 else 0)) \<circ>
        ValueCell_update ''uInvProjection'' (UVec (Mat4_invert ext (cprojection cam))) \<circ>
        ValueCell_update ''uProjection'' (UVec (cprojection cam)) \<circ>
        ValueCell_update ''uInvView'' (UVec (Mat4_invert ext (cview cam))) \<circ>
        ValueCell_update ''uView'' (UVec (cview cam)))
       s"

definition updateInternal :: "externals \<Rightarrow> group \<Rightarrow> camera \<Rightarrow> texture option \<Rightarrow> bool \<Rightarrow> renderer \<Rightarrow> renderer" where
  "updateInternal ext g cam depthTexture renderWboit s =
     (let modelView = Mat4_mul ext (gview g) (cview cam);
          modelViewProjection = Mat4_mul ext modelView (cprojection cam);
          s1 = s\<lparr> sharedTexturesList :=
                    arrayMapUpsert (sharedTexturesList s) ''tDepth''
                      (case depthTexture of None \<Rightarrow> NullTexture | Some t \<Rightarrow> t) \<rparr>;
          s2 = updateUniforms
                 (ValueCell_updateIfChanged ''uRenderWboit'' (UBoolean renderWboit) \<circ>
                  ValueCell_update ''uInvModelViewProjection'' (UVec (Mat4_invert ext modelViewProjection)) \<circ>
                  ValueCell_update ''uModelViewProjection'' (UVec modelViewProjection) \<circ>
                  ValueCell_update ''uInvModelView'' (UVec (Mat4_invert ext modelView)) \<circ>
                  ValueCell_update ''uModelView'' (UVec modelView) \<circ>
                  ValueCell_update ''uModel'' (UVec (gview g)))
                 s1;
          vp = rviewport s2;
          s3 = emit [Enable SCISSOR_TEST, ColorMask True True True True,
                     GlViewport (vx vp) (vy vp) (vwidth vp) (vheight vp),
                     GlScissor (vx vp) (vy vp) (vwidth vp) (vheight vp)] s2
      in s3\<lparr> globalUniformsNeedUpdate := True, currentRenderItemId := - 1 \<rparr>)"

subsection \<open>The passes of the renderer\<close>

definition renderPick :: "externals \<Rightarrow> group \<Rightarrow> camera \<Rightarrow> string \<Rightarrow> texture option \<Rightarrow> renderer \<Rightarrow> renderer" where
  "renderPick ext g cam v depthTexture s =
     forEachRenderable ext (\<lambda>r. \<not> colorOnly (rstate r)) v (renderables g)
       (updateInternal ext g cam depthTexture False
          (emit [Disable BLEND, Enable DEPTH_TEST, DepthMask True] s))"

definition renderDepth :: "externals \<Rightarrow> group \<Rightarrow> camera \<Rightarrow> texture option \<Rightarrow> renderer \<Rightarrow> renderer" where
  "renderDepth ext g cam depthTexture s =
     forEachRenderable ext (\<lambda>r. True) ''depth'' (renderables g)
       (updateInternal ext g cam depthTexture False
          (emit [Disable BLEND, Enable DEPTH_TEST, DepthMask True] s))"

definition renderBlendedOpaque :: "externals \<Rightarrow> group \<Rightarrow> camera \<Rightarrow> texture option \<Rightarrow> renderer \<Rightarrow> renderer" where
  "renderBlendedOpaque ext g cam depthTexture s =
     forEachRenderable ext (\<lambda>r. opaque (rstate r)) ''colorBlended'' (renderables g)
       (updateInternal ext g cam depthTexture False
          (emit [Disable BLEND, Enable DEPTH_TEST, DepthMask True] s))"

definition renderBlendedTransparent :: "externals \<Rightarrow> group \<Rightarrow> camera \<Rightarrow> texture option \<Rightarrow> renderer \<Rightarrow> renderer" where
  "renderBlendedTransparent ext g cam depthTexture s =
     (let s1 = updateInternal ext g cam depthTexture False (emit [Enable DEPTH_TEST] s);
          s2 = emit (if transparentBackground s1
                     then [BlendFunc ONE ONE_MINUS_SRC_ALPHA]
                     else [BlendFuncSeparate SRC_ALPHA ONE_MINUS_SRC_ALPHA ONE ONE_MINUS_SRC_ALPHA]) s1;
          s3 = emit [Enable BLEND] s2;
          s4 = emit [DepthMask True] s3;
          s5 = forEachRenderable ext (\<lambda>r. \<not> opaque (rstate r) \<and> writeDepth (rstate r))
                 ''colorBlended'' (renderables g) s4;
          s6 = emit [DepthMask False] s5
      in forEachRenderable ext (\<lambda>r. \<not> opaque (rstate r) \<and> \<not> writeDepth (rstate r))
           ''colorBlended'' (renderables g) s6)"

definition renderBlended :: "externals \<Rightarrow> group \<Rightarrow> camera \<Rightarrow> texture option \<Rightarrow> renderer \<Rightarrow> renderer" where
  "renderBlended ext g cam depthTexture s =
     renderBlendedTransparent ext g cam depthTexture (renderBlendedOpaque ext g cam depthTexture s)"

definition renderBlendedVolume :: "externals \<Rightarrow> group \<Rightarrow> camera \<Rightarrow> texture option \<Rightarrow> renderer \<Rightarrow> renderer" where
  "renderBlendedVolume ext g cam depthTexture s =
     forEachRenderable ext (\<lambda>r. True) ''colorBlended'' (renderables g)
       (updateInternal ext g cam depthTexture False
          (emit [BlendFunc ONE ONE_MINUS_SRC_ALPHA, Enable BLEND] s))"

text \<open>The condition of the loop of \<^verbatim>\<open>renderWboitOpaque\<close>. An absent optional cell
  reads as \<^verbatim>\<open>undefined\<close>: different from \<^verbatim>\<open>'volume'\<close>, and falsy.\<close>

definition wboitOpaque :: "renderable \<Rightarrow> bool" where
  "wboitOpaque r =
     (let alpha = clamp (alpha (rvalues r) * alphaFactor (rstate r)) 0 1 in
      alpha = 1 \<and> transparencyAverage (rvalues r) \<noteq> 1
      \<and> dRenderMode (rvalues r) \<noteq> Some ''volume''
      \<and> \<not> (dPointFilledCircle (rvalues r) = Some True)
      \<and> \<not> (dXrayShaded (rvalues r) = Some True))"

text \<open>The condition of the loop of \<^verbatim>\<open>renderWboitTransparent\<close>;
  \<^verbatim>\<open>!!r.values.uBackgroundColor\<close> holds when the cell is present.\<close>

definition wboitTransparent :: "renderable \<Rightarrow> bool" where
  "wboitTransparent r =
     (let alpha = clamp (alpha (rvalues r) * alphaFactor (rstate r)) 0 1 in
      alpha < 1 \<or> transparencyAverage (rvalues r) > 0
      \<or> dRenderMode (rvalues r) = Some ''volume''
      \<or> dPointFilledCircle (rvalues r) = Some True
      \<or> uBackgroundColor (rvalues r) \<noteq> None
      \<or> dXrayShaded (rvalues r) = Some True)"

definition renderWboitOpaque :: "externals \<Rightarrow> group \<Rightarrow> camera \<Rightarrow> texture option \<Rightarrow> renderer \<Rightarrow> renderer" where
  "renderWboitOpaque ext g cam depthTexture s =
     forEachRenderable ext wboitOpaque ''colorWboit'' (renderables g)
       (updateInternal ext g cam depthTexture False
          (emit [Disable BLEND, Enable DEPTH_TEST, DepthMask True] s))"

definition renderWboitTransparent :: "externals \<Rightarrow> group \<Rightarrow> camera \<Rightarrow> texture option \<Rightarrow> renderer \<Rightarrow> renderer" where
  "renderWboitTransparent ext g cam depthTexture s =
     forEachRenderable ext wboitTransparent ''colorWboit'' (renderables g)
       (updateInternal ext g cam depthTexture True s)"

subsection \<open>Creating and configuring the renderer\<close>

definition getStyle :: "styleProp \<Rightarrow> styleParams" where
  "getStyle sp =
     (case sp of
        Custom params \<Rightarrow> params
      | Flat \<Rightarrow> \<lparr> lightIntensity = 0, ambientIntensity = 1, metalness = 0, roughness = 0.4, reflectivity = 0.5 \<rparr>
      | Matte \<Rightarrow> \<lparr> lightIntensity = 0.6, ambientIntensity = 0.4, metalness = 0, roughness = 1, reflectivity = 0.5 \<rparr>
      | Glossy \<Rightarrow> \<lparr> lightIntensity = 0.6, ambientIntensity = 0.4, metalness = 0, roughness = 0.4, reflectivity = 0.5 \<rparr>
      | Metallic \<Rightarrow> \<lparr> lightIntensity = 0.6, ambientIntensity = 0.4, metalness = 0.4, roughness = 0.6, reflectivity = 0.5 \<rparr>
      | Plastic \<Rightarrow> \<lparr> lightIntensity = 0.6, ambientIntensity = 0.4, metalness = 0, roughness = 0.2, reflectivity = 0.5 \<rparr>)"

text \<open>A write to a JavaScript array: in range it replaces the element, at the end it
  appends. The loop of \<^verbatim>\<open>getClip\<close> writes every array from index 0 upwards, so it never
  writes beyond the end; such a write is modelled with zeros in the gap.\<close>

definition arraySet :: "vec \<Rightarrow> nat \<Rightarrow> real \<Rightarrow> vec" where
  "arraySet xs i x =
     (if i < length xs then xs[i := x] else xs @ replicate (i - length xs) 0 @ [x])"

text \<open>\<^verbatim>\<open>Vec3.toArray(v, out, offset)\<close> and \<^verbatim>\<open>Quat.toArray(q, out, offset)\<close>.\<close>

definition Vec3_toArray :: "vec \<Rightarrow> vec \<Rightarrow> nat \<Rightarrow> vec" where
  "Vec3_toArray a out offset =
     arraySet (arraySet (arraySet out offset (a ! 0)) (offset + 1) (a ! 1)) (offset + 2) (a ! 2)"

definition Quat_toArray :: "vec \<Rightarrow> vec \<Rightarrow> nat \<Rightarrow> vec" where
  "Quat_toArray a out offset =
     arraySet (arraySet (arraySet (arraySet out offset (a ! 0)) (offset + 1) (a ! 1))
       (offset + 2) (a ! 2)) (offset + 3) (a ! 3)"

text \<open>The body of the loop of \<^verbatim>\<open>getClip\<close> for the object \<open>ob\<close> at index \<open>i\<close>.\<close>

definition getClipStep :: "externals \<Rightarrow> nat \<Rightarrow> clipObjectProp \<Rightarrow> clipObjects \<Rightarrow> clipObjects" where
  "getClipStep ext i ob arrays =
     arrays\<lparr> otype := arraySet (otype arrays) i (Clipping_Type ext (ctype ob)),
             oposition := Vec3_toArray (cposition ob) (oposition arrays) (i * 3),
             orotation := Quat_toArray
                 (Quat_setAxisAngle ext (axis (crotation ob)) (degToRad ext (angle (crotation ob))))
                 (orotation arrays) (i * 4),
             oscale := Vec3_toArray (cscale ob) (oscale arrays) (i * 3) \<rparr>"

fun getClipLoop :: "externals \<Rightarrow> nat \<Rightarrow> clipObjectProp list \<Rightarrow> clipObjects \<Rightarrow> clipObjects" where
  "getClipLoop ext i [] arrays = arrays"
| "getClipLoop ext i (ob # obs) arrays = getClipLoop ext (Suc i) obs (getClipStep ext i ob arrays)"

definition getClip :: "externals \<Rightarrow> clipProp \<Rightarrow> clip option \<Rightarrow> clip" where
  "getClip ext cp old =
     (let arrays = (case old of
                      Some c \<Rightarrow> objects c
                    | None \<Rightarrow> \<lparr> ccount = 0, otype = replicate 5 1, oposition = replicate (5 * 3) 0,
                                 orotation = replicate (5 * 4) 0, oscale = replicate (5 * 3) 1 \<rparr>)
      in \<lparr> variant = pvariant cp,
           objects = (getClipLoop ext 0 (pobjects cp) arrays)\<lparr> ccount := length (pobjects cp) \<rparr> \<rparr>)"

text \<open>The part of \<^verbatim>\<open>WebGLContext\<close> that the renderer and the draw pass read.\<close>

record webGLContext =
  drawingBufferWidth :: real
  drawingBufferHeight :: real
  pixelRatio :: real
  ext_fragDepth :: bool
  ext_depthTexture :: bool
  wboitSupported :: bool
  stateProgramId :: int
  stateRenderItemId :: int

text \<open>
  Modelled from the spec: \<^verbatim>\<open>PD.merge(RendererParams, PD.getDefaultValues(RendererParams), props)\<close>
  of \<^verbatim>\<open>mol-util/param-definition\<close> is not among the sources; the configuration is
  "created with defaults", here the defaults that \<^verbatim>\<open>RendererParams\<close> declares, each
  replaced by the value the caller gives.
\<close>

definition defaultProps :: "externals \<Rightarrow> rendererProps" where
  "defaultProps ext =
     \<lparr> backgroundColor = 0,
       pickingAlphaThreshold = 0.5,
       interiorDarkening = 0.5,
       interiorColorFlag = True,
       interiorColor = Color_fromNormalizedRgb ext 0.3 0.3 0.3,
       highlightColor = Color_fromNormalizedRgb ext 1.0 0.4 0.6,
       selectColor = Color_fromNormalizedRgb ext 0.2 1.0 0.1,
       pstyle = Matte,
       pclip = \<lparr> pvariant = ''instance'', pobjects = [] \<rparr> \<rparr>"

definition mergeProps :: "rendererProps \<Rightarrow> partialProps \<Rightarrow> rendererProps" where
  "mergeProps d pp =
     \<lparr> backgroundColor = (case backgroundColor' pp of Some x \<Rightarrow> x | None \<Rightarrow> backgroundColor d),
       pickingAlphaThreshold = (case pickingAlphaThreshold' pp of Some x \<Rightarrow> x | None \<Rightarrow> pickingAlphaThreshold d),
       interiorDarkening = (case interiorDarkening' pp of Some x \<Rightarrow> x | None \<Rightarrow> interiorDarkening d),
       interiorColorFlag = (case interiorColorFlag' pp of Some x \<Rightarrow> x | None \<Rightarrow> interiorColorFlag d),
       interiorColor = (case interiorColor' pp of Some x \<Rightarrow> x | None \<Rightarrow> interiorColor d),
       highlightColor = (case highlightColor' pp of Some x \<Rightarrow> x | None \<Rightarrow> highlightColor d),
       selectColor = (case selectColor' pp of Some x \<Rightarrow> x | None \<Rightarrow> selectColor d),
       pstyle = (case pstyle' pp of Some x \<Rightarrow> x | None \<Rightarrow> pstyle d),
       pclip = (case pclip' pp of Some x \<Rightarrow> x | None \<Rightarrow> pclip d) \<rparr>"

text \<open>The cells of \<^verbatim>\<open>globalUniforms\<close> as \<^verbatim>\<open>Renderer.create\<close> fills them. The
  constructors of \<^verbatim>\<open>mol-math\<close> give the zero matrix (\<^verbatim>\<open>Mat4()\<close>), the identity
  and zero vectors; \<^verbatim>\<open>Viewport()\<close> is the empty viewport.\<close>

definition Mat4_identity :: vec where
  "Mat4_identity = [1, 0, 0, 0, 0, 1, 0, 0, 0, 0, 1, 0, 0, 0, 0, 1]"

definition initialUniforms :: "externals \<Rightarrow> webGLContext \<Rightarrow> rendererProps \<Rightarrow> styleParams \<Rightarrow> clip \<Rightarrow> (string \<times> uvalue) list" where
  "initialUniforms ext ctx p st c =
     [(''uModel'', UVec Mat4_identity),
      (''uView'', UVec (replicate 16 0)),
      (''uInvView'', UVec (replicate 16 0)),
      (''uModelView'', UVec (replicate 16 0)),
      (''uInvModelView'', UVec (replicate 16 0)),
      (''uInvProjection'', UVec (replicate 16 0)),
      (''uProjection'', UVec (replicate 16 0)),
      (''uModelViewProjection'', UVec (replicate 16 0)),
      (''uInvModelViewProjection'', UVec (replicate 16 0)),
      (''uIsOrtho'', UNumber 1),
      (''uViewOffset'', UVec [0, 0]),
      (''uPixelRatio'', UNumber (pixelRatio ctx)),
      (''uViewportHeight'', UNumber 0),
      (''uViewport'', UVec [0, 0, 0, 0]),
      (''uDrawingBufferSize'', UVec [drawingBufferWidth ctx, drawingBufferHeight ctx]),
      (''uCameraPosition'', UVec [0, 0, 0]),
      (''uCameraDir'', UVec [0, 0, 0]),
      (''uNear'', UNumber 1),
      (''uFar'', UNumber 10000),
      (''uFogNear'', UNumber 1),
      (''uFogFar'', UNumber 10000),
      (''uFogColor'', UVec (Color_toVec3Normalized ext (backgroundColor p))),
      (''uRenderWboit'', UBoolean False),
      (''uTransparentBackground'', UBoolean False),
      (''uClipObjectType'', UVec (otype (objects c))),
      (''uClipObjectPosition'', UVec (oposition (objects c))),
      (''uClipObjectRotation'', UVec (orotation (objects c))),
      (''uClipObjectScale'', UVec (oscale (objects c))),
      (''uLightIntensity'', UNumber (lightIntensity st)),
      (''uAmbientIntensity'', UNumber (ambientIntensity st)),
      (''uMetalness'', UNumber (metalness st)),
      (''uRoughness'', UNumber (roughness st)),
      (''uReflectivity'', UNumber (reflectivity st)),
      (''uPickingAlphaThreshold'', UNumber (pickingAlphaThreshold p)),
      (''uInteriorDarkening'', UNumber (interiorDarkening p)),
      (''uInteriorColorFlag'', UBoolean (interiorColorFlag p)),
      (''uInteriorColor'', UVec (Color_toVec3Normalized ext (interiorColor p))),
      (''uHighlightColor'', UVec (Color_toVec3Normalized ext (highlightColor p))),
      (''uSelectColor'', UVec (Color_toVec3Normalized ext (selectColor p)))]"

definition cellsOf :: "(string \<times> uvalue) list \<Rightarrow> string \<Rightarrow> valueCell" where
  "cellsOf xs k = ValueCell_create (case map_of xs k of Some v \<Rightarrow> v | None \<Rightarrow> UNumber 0)"

text \<open>\<^verbatim>\<open>Renderer.create(ctx, props)\<close>, in a world whose renderables are \<open>h\<close> and whose
  trace is empty.\<close>

definition create :: "externals \<Rightarrow> webGLContext \<Rightarrow> partialProps \<Rightarrow> (ref \<Rightarrow> renderable) \<Rightarrow> renderer" where
  "create ext ctx pp h =
     (let p = mergeProps (defaultProps ext) pp;
          st = getStyle (pstyle p);
          c = getClip ext (pclip p) None
      in \<lparr> props = p,
           style = st,
           rclip = c,
           rviewport = \<lparr> vx = 0, vy = 0, vwidth = 0, vheight = 0 \<rparr>,
           drawingBufferSize = [drawingBufferWidth ctx, drawingBufferHeight ctx],
           bgColor = Color_toVec3Normalized ext (backgroundColor p),
           transparentBackground = False,
           sharedTexturesList = [(''tDepth'', NullTexture)],
           globalUniforms = cellsOf (initialUniforms ext ctx p st c),
           globalUniformsNeedUpdate = True,
           fragDepth = ext_fragDepth ctx,
           currentProgramId = stateProgramId ctx,
           currentRenderItemId = stateRenderItemId ctx,
           heap = h,
           trace = [] \<rparr>)"

text \<open>The blocks of \<^verbatim>\<open>setProps\<close>, in the order of the source.\<close>

definition setBackgroundColor :: "externals \<Rightarrow> partialProps \<Rightarrow> renderer \<Rightarrow> renderer" where
  "setBackgroundColor ext pp s =
     (case backgroundColor' pp of
        Some x \<Rightarrow>
          (if x \<noteq> backgroundColor (props s) then
             updateUniforms (ValueCell_update ''uFogColor'' (UVec (Color_toVec3Normalized ext x)))
               (s\<lparr> props := (props s)\<lparr> backgroundColor := x \<rparr>,
                   bgColor := Color_toVec3Normalized ext x \<rparr>)
           else s)
      | None \<Rightarrow> s)"

definition setPickingAlphaThreshold :: "partialProps \<Rightarrow> renderer \<Rightarrow> renderer" where
  "setPickingAlphaThreshold pp s =
     (case pickingAlphaThreshold' pp of
        Some x \<Rightarrow>
          (if x \<noteq> pickingAlphaThreshold (props s) then
             updateUniforms (ValueCell_update ''uPickingAlphaThreshold'' (UNumber x))
               (s\<lparr> props := (props s)\<lparr> pickingAlphaThreshold := x \<rparr> \<rparr>)
           else s)
      | None \<Rightarrow> s)"

definition setInteriorDarkening :: "partialProps \<Rightarrow> renderer \<Rightarrow> renderer" where
  "setInteriorDarkening pp s =
     (case interiorDarkening' pp of
        Some x \<Rightarrow>
          (if x \<noteq> interiorDarkening (props s) then
             updateUniforms (ValueCell_update ''uInteriorDarkening'' (UNumber x))
               (s\<lparr> props := (props s)\<lparr> interiorDarkening := x \<rparr> \<rparr>)
           else s)
      | None \<Rightarrow> s)"

definition setInteriorColorFlag :: "partialProps \<Rightarrow> renderer \<Rightarrow> renderer" where
  "setInteriorColorFlag pp s =
     (case interiorColorFlag' pp of
        Some x \<Rightarrow>
          (if x \<noteq> interiorColorFlag (props s) then
             updateUniforms (ValueCell_update ''uInteriorColorFlag'' (UBoolean x))
               (s\<lparr> props := (props s)\<lparr> interiorColorFlag := x \<rparr> \<rparr>)
           else s)
      | None \<Rightarrow> s)"

definition setInteriorColor :: "externals \<Rightarrow> partialProps \<Rightarrow> renderer \<Rightarrow> renderer" where
  "setInteriorColor ext pp s =
     (case interiorColor' pp of
        Some x \<Rightarrow>
          (if x \<noteq> interiorColor (props s) then
             updateUniforms (ValueCell_update ''uInteriorColor'' (UVec (Color_toVec3Normalized ext x)))
               (s\<lparr> props := (props s)\<lparr> interiorColor := x \<rparr> \<rparr>)
           else s)
      | None \<Rightarrow> s)"

definition setHighlightColor :: "externals \<Rightarrow> partialProps \<Rightarrow> renderer \<Rightarrow> renderer" where
  "setHighlightColor ext pp s =
     (case highlightColor' pp of
        Some x \<Rightarrow>
          (if x \<noteq> highlightColor (props s) then
             updateUniforms (ValueCell_update ''uHighlightColor'' (UVec (Color_toVec3Normalized ext x)))
               (s\<lparr> props := (props s)\<lparr> highlightColor := x \<rparr> \<rparr>)
           else s)
      | None \<Rightarrow> s)"

definition setSelectColor :: "externals \<Rightarrow> partialProps \<Rightarrow> renderer \<Rightarrow> renderer" where
  "setSelectColor ext pp s =
     (case selectColor' pp of
        Some x \<Rightarrow>
          (if x \<noteq> selectColor (props s) then
             updateUniforms (ValueCell_update ''uSelectColor'' (UVec (Color_toVec3Normalized ext x)))
               (s\<lparr> props := (props s)\<lparr> selectColor := x \<rparr> \<rparr>)
           else s)
      | None \<Rightarrow> s)"

definition setStyle :: "partialProps \<Rightarrow> renderer \<Rightarrow> renderer" where
  "setStyle pp s =
     (case pstyle' pp of
        Some x \<Rightarrow>
          (let st = getStyle x in
           updateUniforms
             (ValueCell_updateIfChanged ''uReflectivity'' (UNumber (reflectivity st)) \<circ>
              ValueCell_updateIfChanged ''uRoughness'' (UNumber (roughness st)) \<circ>
              ValueCell_updateIfChanged ''uMetalness'' (UNumber (metalness st)) \<circ>
              ValueCell_updateIfChanged ''uAmbientIntensity'' (UNumber (ambientIntensity st)) \<circ>
              ValueCell_updateIfChanged ''uLightIntensity'' (UNumber (lightIntensity st)))
             (s\<lparr> props := (props s)\<lparr> pstyle := x \<rparr>, style := st \<rparr>))
      | None \<Rightarrow> s)"

text \<open>\<^verbatim>\<open>deepEqual\<close> of \<^verbatim>\<open>mol-util\<close> on two clip configurations is the equality of
  their values.\<close>

definition setClip :: "externals \<Rightarrow> partialProps \<Rightarrow> renderer \<Rightarrow> renderer" where
  "setClip ext pp s =
     (case pclip' pp of
        Some x \<Rightarrow>
          (if x \<noteq> pclip (props s) then
             (let c = getClip ext x (Some (rclip s)) in
              updateUniforms
                (ValueCell_update ''uClipObjectType'' (UVec (otype (objects c))) \<circ>
                 ValueCell_update ''uClipObjectScale'' (UVec (oscale (objects c))) \<circ>
                 ValueCell_update ''uClipObjectRotation'' (UVec (orotation (objects c))) \<circ>
                 ValueCell_update ''uClipObjectPosition'' (UVec (oposition (objects c))))
                (s\<lparr> props := (props s)\<lparr> pclip := x \<rparr>, rclip := c \<rparr>))
           else s)
      | None \<Rightarrow> s)"

definition setProps :: "externals \<Rightarrow> partialProps \<Rightarrow> renderer \<Rightarrow> renderer" where
  "setProps ext pp s =
     setClip ext pp (setStyle pp (setSelectColor ext pp (setHighlightColor ext pp
       (setInteriorColor ext pp (setInteriorColorFlag pp (setInteriorDarkening pp
         (setPickingAlphaThreshold pp (setBackgroundColor ext pp s))))))))"

definition setViewport :: "real \<Rightarrow> real \<Rightarrow> real \<Rightarrow> real \<Rightarrow> renderer \<Rightarrow> renderer" where
  "setViewport x y w h s =
     (let s1 = emit [GlViewport x y w h, GlScissor x y w h] s;
          vp = rviewport s1
      in if x \<noteq> vx vp \<or> y \<noteq> vy vp \<or> w \<noteq> vwidth vp \<or> h \<noteq> vheight vp
         then updateUniforms
                (ValueCell_update ''uViewport'' (UVec [x, y, w, h]) \<circ>
                 ValueCell_update ''uViewportHeight'' (UNumber h))
                (s1\<lparr> rviewport := \<lparr> vx = x, vy = y, vwidth = w, vheight = h \<rparr> \<rparr>)
         else s1)"

definition setTransparentBackground :: "bool \<Rightarrow> renderer \<Rightarrow> renderer" where
  "setTransparentBackground b s = s\<lparr> transparentBackground := b \<rparr>"

definition setDrawingBufferSize :: "real \<Rightarrow> real \<Rightarrow> renderer \<Rightarrow> renderer" where
  "setDrawingBufferSize w h s =
     (if w \<noteq> drawingBufferSize s ! 0 \<or> h \<noteq> drawingBufferSize s ! 1
      then updateUniforms (ValueCell_update ''uDrawingBufferSize'' (UVec [w, h]))
             (s\<lparr> drawingBufferSize := [w, h] \<rparr>)
      else s)"

definition clear :: "bool \<Rightarrow> renderer \<Rightarrow> renderer" where
  "clear toBackgroundColor s =
     (let vp = rviewport s in
      emit ([GlViewport (vx vp) (vy vp) (vwidth vp) (vheight vp),
             GlScissor (vx vp) (vy vp) (vwidth vp) (vheight vp),
             Enable SCISSOR_TEST, Enable DEPTH_TEST, ColorMask True True True True, DepthMask True] @
            [if transparentBackground s then ClearColor 0 0 0 0
             else if toBackgroundColor then ClearColor (bgColor s ! 0) (bgColor s ! 1) (bgColor s ! 2) 1
             else ClearColor 1 1 1 1] @
            [Clear True True]) s)"

definition clearDepth :: "renderer \<Rightarrow> renderer" where
  "clearDepth s = emit [Enable SCISSOR_TEST, Enable DEPTH_TEST, DepthMask True, Clear False True] s"

subsection \<open>The draw pass\<close>

text \<open>
  Modelled from the spec: a render target is "an owned pair of a color and/or depth buffer
  at a given size" that "supports resize-in-place and exposes attachable textures";
  \<^verbatim>\<open>webgl/render-target\<close> and \<^verbatim>\<open>webgl/texture\<close> are not among the sources. A target is
  its framebuffer and its texture; the size of a texture is kept by the draw pass that
  owns it, \<^verbatim>\<open>getWidth\<close> and \<^verbatim>\<open>getHeight\<close> of a target are those of its texture, and
  \<^verbatim>\<open>setSize\<close> of a target as well as \<^verbatim>\<open>define\<close> of a texture store the new size.
\<close>

record renderTarget =
  framebuffer :: nat
  targetTexture :: texture

text \<open>
  Modelled from the spec: the order-independent pass is an external collaborator with an
  \<^verbatim>\<open>enabled\<close> capability, a size, \<^verbatim>\<open>bind\<close> and \<^verbatim>\<open>render\<close>; \<^verbatim>\<open>./wboit\<close> is not among
  the sources. It is enabled when the device supports it.
\<close>

record wboitPass =
  enabled :: bool
  wboitWidth :: real
  wboitHeight :: real
  wboitProgram :: int

record depthMergeRenderable =
  tDepthPrimitives :: texture
  tDepthVolumes :: texture
  uTexSize :: valueCell
  dPackedDepth :: bool
  depthMergeProgram :: int

record drawPass =
  drawTarget :: renderTarget
  colorTarget :: renderTarget
  depthTexture :: texture
  depthTexturePrimitives :: texture
  packedDepth :: bool
  depthTarget :: renderTarget
  depthTargetPrimitives :: "renderTarget option"
  depthTargetVolumes :: "renderTarget option"
  depthTextureVolumes :: texture
  depthMerge :: depthMergeRenderable
  wboit :: "wboitPass option"
  textureSize :: "texture \<Rightarrow> real \<times> real"

definition getWidth :: "drawPass \<Rightarrow> renderTarget \<Rightarrow> real" where
  "getWidth dp t = fst (textureSize dp (targetTexture t))"

definition getHeight :: "drawPass \<Rightarrow> renderTarget \<Rightarrow> real" where
  "getHeight dp t = snd (textureSize dp (targetTexture t))"

definition Texture_define :: "texture \<Rightarrow> real \<Rightarrow> real \<Rightarrow> drawPass \<Rightarrow> drawPass" where
  "Texture_define t w h dp = dp\<lparr> textureSize := (textureSize dp)(t := (w, h)) \<rparr>"

definition RenderTarget_setSize :: "renderTarget \<Rightarrow> real \<Rightarrow> real \<Rightarrow> drawPass \<Rightarrow> drawPass" where
  "RenderTarget_setSize t w h dp = Texture_define (targetTexture t) w h dp"

text \<open>\<^verbatim>\<open>get wboitEnabled() { return !!this.wboit?.enabled; }\<close>\<close>

definition wboitEnabled :: "drawPass \<Rightarrow> bool" where
  "wboitEnabled dp = (case wboit dp of None \<Rightarrow> False | Some w \<Rightarrow> enabled w)"

text \<open>
  The constructor. The objects it creates are numbered: the null target has the
  framebuffer 0 and the null texture; the color target, the depth target and the two
  depth textures for primitives and volumes (with their targets, when depth is packed)
  have the numbers 1 to 4. \<open>mergeProg\<close> and \<open>wboitProg\<close> are the ids of the programs of the
  depth-merge renderable and of the order-independent pass.
\<close>

definition DrawPass_new :: "webGLContext \<Rightarrow> int \<Rightarrow> int \<Rightarrow> real \<Rightarrow> real \<Rightarrow> bool \<Rightarrow> drawPass" where
  "DrawPass_new ctx mergeProg wboitProg width height enableWboit =
     (let packed = \<not> ext_depthTexture ctx in
      \<lparr> drawTarget = \<lparr> framebuffer = 0, targetTexture = NullTexture \<rparr>,
        colorTarget = \<lparr> framebuffer = 1, targetTexture = Texture 1 \<rparr>,
        depthTexture = Texture 2,
        depthTexturePrimitives = Texture 3,
        packedDepth = packed,
        depthTarget = \<lparr> framebuffer = 2, targetTexture = Texture 2 \<rparr>,
        depthTargetPrimitives = (if packed then Some \<lparr> framebuffer = 3, targetTexture = Texture 3 \<rparr> else None),
        depthTargetVolumes = (if packed then Some \<lparr> framebuffer = 4, targetTexture = Texture 4 \<rparr> else None),
        depthTextureVolumes = Texture 4,
        depthMerge = \<lparr> tDepthPrimitives = Texture 3, tDepthVolumes = Texture 4,
                       uTexSize = ValueCell_create (UVec [width, height]),
                       dPackedDepth = packed, depthMergeProgram = mergeProg \<rparr>,
        wboit = (if enableWboit
                 then Some \<lparr> enabled = wboitSupported ctx, wboitWidth = width, wboitHeight = height,
                             wboitProgram = wboitProg \<rparr>
                 else None),
        textureSize = (\<lambda>t. case t of NullTexture \<Rightarrow> (0, 0) | Texture n \<Rightarrow> (width, height)) \<rparr>)"

definition DrawPass_setSize :: "real \<Rightarrow> real \<Rightarrow> drawPass \<Rightarrow> drawPass" where
  "DrawPass_setSize width height dp =
     (let w = getWidth dp (colorTarget dp);
          h = getHeight dp (colorTarget dp)
      in if width \<noteq> w \<or> height \<noteq> h then
           (let dp1 = RenderTarget_setSize (colorTarget dp) width height dp;
                dp2 = RenderTarget_setSize (depthTarget dp1) width height dp1;
                dp3 = (case depthTargetPrimitives dp2 of
                         Some t \<Rightarrow> RenderTarget_setSize t width height dp2
                       | None \<Rightarrow> Texture_define (depthTexturePrimitives dp2) width height dp2);
                dp4 = (case depthTargetVolumes dp3 of
                         Some t \<Rightarrow> RenderTarget_setSize t width height dp3
                       | None \<Rightarrow> Texture_define (depthTextureVolumes dp3) width height dp3);
                dp5 = dp4\<lparr> depthMerge := (depthMerge dp4)
                             \<lparr> uTexSize := \<lparr> cellValue = UVec [width, height],
                                            cellVersion = Suc (cellVersion (uTexSize (depthMerge dp4))) \<rparr> \<rparr> \<rparr>
            in case wboit dp5 of
                 Some wb \<Rightarrow> (if enabled wb
                             then dp5\<lparr> wboit := Some (wb\<lparr> wboitWidth := width, wboitHeight := height \<rparr>) \<rparr>
                             else dp5)
               | None \<Rightarrow> dp5)
         else dp)"

text \<open>The helper overlays: \<^verbatim>\<open>helper.debug\<close>, \<^verbatim>\<open>helper.handle\<close>, \<^verbatim>\<open>helper.camera\<close>.\<close>

record helperPart =
  isEnabled :: bool
  hscene :: scene

record cameraHelper = helperPart +
  hcamera :: camera

record helper =
  debug :: helperPart
  handle :: helperPart
  chelper :: cameraHelper

datatype error = Error string

text \<open>The methods of the class are prefixed with its name: \<open>DrawPass_depthMerge\<close> is
  \<^verbatim>\<open>_depthMerge\<close>, \<open>DrawPass_renderWboit\<close> is \<^verbatim>\<open>_renderWboit\<close>,
  \<open>DrawPass_renderBlended\<close> is \<^verbatim>\<open>_renderBlended\<close>, \<open>DrawPass_render1\<close> is \<^verbatim>\<open>_render\<close>
  (one eye) and \<open>DrawPass_render\<close> is \<^verbatim>\<open>render\<close>.

  \<^verbatim>\<open>depthMerge.render()\<close> and \<^verbatim>\<open>wboit.render()\<close> draw with programs of their own,
  which become the bound program.\<close>

definition DrawPass_depthMerge :: "drawPass \<Rightarrow> renderer \<Rightarrow> renderer" where
  "DrawPass_depthMerge dp s =
     (emit [DepthMergeUpdate, BindTarget (framebuffer (depthTarget dp)),
            Disable BLEND, Disable DEPTH_TEST, Disable CULL_FACE, DepthMask False,
            ClearColor 1 1 1 1, Clear True False, DepthMergeRender] s)
       \<lparr> currentProgramId := depthMergeProgram (depthMerge dp) \<rparr>"

definition DrawPass_renderWboit :: "externals \<Rightarrow> drawPass \<Rightarrow> camera \<Rightarrow> scene \<Rightarrow> bool \<Rightarrow> renderer \<Rightarrow> error + renderer" where
  "DrawPass_renderWboit ext dp cam sc toDrawingBuffer s =
     (case wboit dp of
        None \<Rightarrow> Inl (Error ''expected wboit to be enabled'')
      | Some wb \<Rightarrow>
          if \<not> enabled wb then Inl (Error ''expected wboit to be enabled'')
          else
            let renderTarget = (if toDrawingBuffer then drawTarget dp else colorTarget dp);
                fb = framebuffer renderTarget;
                s1 = clear True (emit [BindTarget fb] s);
                s2 = emit [AttachFramebuffer (depthTexturePrimitives dp) fb ''depth'', BindTarget fb] s1;
                s3 = renderWboitOpaque ext (primitives sc) cam None s2;
                s4 = emit [AttachFramebuffer (depthTextureVolumes dp) fb ''depth'', BindTarget fb] s3;
                s5 = renderWboitOpaque ext (volumes sc) cam (Some (depthTexturePrimitives dp)) (clearDepth s4);
                s6 = DrawPass_depthMerge dp s5;
                s7 = emit [WboitBind] s6;
                s8 = renderWboitTransparent ext (primitives sc) cam (Some (depthTexture dp)) s7;
                s9 = renderWboitTransparent ext (volumes sc) cam (Some (depthTexture dp)) s8;
                s10 = emit [AttachFramebuffer (depthTexturePrimitives dp) fb ''depth'', BindTarget fb] s9
            in Inr ((emit [WboitRender (cviewport cam)] s10)\<lparr> currentProgramId := wboitProgram wb \<rparr>))"

definition DrawPass_renderBlended :: "externals \<Rightarrow> drawPass \<Rightarrow> camera \<Rightarrow> scene \<Rightarrow> bool \<Rightarrow> renderer \<Rightarrow> renderer" where
  "DrawPass_renderBlended ext dp cam sc toDrawingBuffer s =
     (let cfb = framebuffer (colorTarget dp);
          s1 = (if toDrawingBuffer then emit [UnbindFramebuffer] s
                else emit ([BindTarget cfb] @
                           (if \<not> packedDepth dp
                            then [AttachFramebuffer (depthTexturePrimitives dp) cfb ''depth'']
                            else [])) s);
          s2 = renderBlendedOpaque ext (primitives sc) cam None (clear True s1);
          s3 = (case depthTargetPrimitives dp of
                  Some t \<Rightarrow>
                    (if \<not> toDrawingBuffer
                     then emit [BindTarget cfb]
                            (renderDepth ext (primitives sc) cam None
                               (clear False (emit [BindTarget (framebuffer t)] s2)))
                     else s2)
                | None \<Rightarrow> s2);
          s4 = (if \<not> toDrawingBuffer then
                  (let a1 = (if \<not> packedDepth dp
                             then clearDepth (emit [AttachFramebuffer (depthTextureVolumes dp) cfb ''depth''] s3)
                             else s3);
                       a2 = renderBlendedVolume ext (volumes sc) cam (Some (depthTexturePrimitives dp)) a1;
                       a3 = (case depthTargetVolumes dp of
                               Some t \<Rightarrow>
                                 emit [BindTarget cfb]
                                   (renderDepth ext (volumes sc) cam (Some (depthTexturePrimitives dp))
                                      (clear False (emit [BindTarget (framebuffer t)] a2)))
                             | None \<Rightarrow> a2)
                   in if \<not> packedDepth dp
                      then emit [AttachFramebuffer (depthTexturePrimitives dp) cfb ''depth''] a3
                      else a3)
                else s3);
          s5 = renderBlendedTransparent ext (primitives sc) cam None s4
      in if \<not> toDrawingBuffer then emit [BindTarget cfb] (DrawPass_depthMerge dp s5) else s5)"

text \<open>\<^verbatim>\<open>DrawPass._render\<close>; the helper is returned because
  \<^verbatim>\<open>helper.camera.update(camera)\<close> changes its camera.\<close>

definition DrawPass_render1 :: "externals \<Rightarrow> drawPass \<Rightarrow> camera \<Rightarrow> scene \<Rightarrow> helper \<Rightarrow> bool \<Rightarrow> renderer \<Rightarrow> error + (helper \<times> renderer)" where
  "DrawPass_render1 ext dp cam sc hp toDrawingBuffer s =
     (let vp = cviewport cam;
          s1 = update ext cam (setViewport (vx vp) (vy vp) (vwidth vp) (vheight vp) s)
      in case (if wboitEnabled dp
               then DrawPass_renderWboit ext dp cam sc toDrawingBuffer s1
               else Inr (DrawPass_renderBlended ext dp cam sc toDrawingBuffer s1)) of
           Inl e \<Rightarrow> Inl e
         | Inr s2 \<Rightarrow>
             let s3 = (if isEnabled (debug hp)
                       then renderBlended ext (sceneGroup (hscene (debug hp))) cam None
                              ((emit [SyncVisibility] s2)\<lparr> heap := syncVisibility ext (heap s2) \<rparr>)
                       else s2);
                 s4 = (if isEnabled (handle hp)
                       then renderBlended ext (sceneGroup (hscene (handle hp))) cam None s3
                       else s3);
                 hc = helperCameraUpdate ext (hcamera (chelper hp)) cam;
                 hp' = (if isEnabled (chelper hp)
                        then hp\<lparr> chelper := (chelper hp)\<lparr> hcamera := hc \<rparr> \<rparr>
                        else hp);
                 s5 = (if isEnabled (chelper hp)
                       then renderBlended ext (sceneGroup (hscene (chelper hp))) hc None (update ext hc s4)
                       else s4)
             in Inr (hp', emit [Flush] s5))"

text \<open>\<^verbatim>\<open>DrawPass.render\<close>\<close>

definition DrawPass_render :: "externals \<Rightarrow> drawPass \<Rightarrow> cameraArg \<Rightarrow> scene \<Rightarrow> helper \<Rightarrow> bool \<Rightarrow> bool \<Rightarrow> renderer \<Rightarrow> error + (helper \<times> renderer)" where
  "DrawPass_render ext dp cam sc hp toDrawingBuffer transparentBg s =
     (let s1 = setDrawingBufferSize (getWidth dp (colorTarget dp)) (getHeight dp (colorTarget dp))
                 (setTransparentBackground transparentBg s)
      in case cam of
           Stereo left right \<Rightarrow>
             (case DrawPass_render1 ext dp left sc hp toDrawingBuffer s1 of
                Inl e \<Rightarrow> Inl e
              | Inr (hp1, s2) \<Rightarrow> DrawPass_render1 ext dp right sc hp1 toDrawingBuffer s2)
         | Mono c \<Rightarrow> DrawPass_render1 ext dp c sc hp toDrawingBuffer s1)"

subsection \<open>The classification rule as the specification words it\<close>

text \<open>
  "An object is WBOIT-opaque iff \<^verbatim>\<open>alpha == 1\<close> AND its average transparency
  contribution is 0 AND it is not volumetric AND it is not a filled circular point AND it
  does not use x-ray shading. An object is WBOIT-transparent iff \<^verbatim>\<open>alpha < 1\<close> OR average
  transparency > 0 OR it is volumetric OR it is a filled circular point OR it declares a
  custom background color override OR it uses x-ray shading."
\<close>

definition volumetric :: "renderable \<Rightarrow> bool" where
  "volumetric r = (dRenderMode (rvalues r) = Some ''volume'')"

definition filledCirclePoint :: "renderable \<Rightarrow> bool" where
  "filledCirclePoint r = (dPointFilledCircle (rvalues r) = Some True)"

definition xrayShaded :: "renderable \<Rightarrow> bool" where
  "xrayShaded r = (dXrayShaded (rvalues r) = Some True)"

definition backgroundOverride :: "renderable \<Rightarrow> bool" where
  "backgroundOverride r = (uBackgroundColor (rvalues r) \<noteq> None)"

definition effectiveAlpha :: "renderable \<Rightarrow> real" where
  "effectiveAlpha r = clamp (alpha (rvalues r) * alphaFactor (rstate r)) 0 1"

definition spec_wboitOpaque :: "renderable \<Rightarrow> bool" where
  "spec_wboitOpaque r =
     (effectiveAlpha r = 1 \<and> transparencyAverage (rvalues r) = 0 \<and> \<not> volumetric r
      \<and> \<not> filledCirclePoint r \<and> \<not> xrayShaded r)"

definition spec_wboitTransparent :: "renderable \<Rightarrow> bool" where
  "spec_wboitTransparent r =
     (effectiveAlpha r < 1 \<or> transparencyAverage (rvalues r) > 0 \<or> volumetric r
      \<or> filledCirclePoint r \<or> backgroundOverride r \<or> xrayShaded r)"

subsection \<open>Reading a trace\<close>

text \<open>The draws of a trace, in order: the object and the variant of every
  \<^verbatim>\<open>r.render(variant, sharedTexturesList)\<close>.\<close>

fun draws :: "event list \<Rightarrow> (ref \<times> string) list" where
  "draws [] = []"
| "draws (Render a v ts # es) = (a, v) # draws es"
| "draws (e # es) = draws es"

text \<open>The programs to which the global uniforms were uploaded, in order.\<close>

fun uploads :: "event list \<Rightarrow> int list" where
  "uploads [] = []"
| "uploads (SetGlobalUniforms q # es) = q # uploads es"
| "uploads (e # es) = uploads es"

text \<open>The commands a step added to the trace.\<close>

definition newEvents :: "renderer \<Rightarrow> renderer \<Rightarrow> event list" where
  "newEvents s s' = drop (length (trace s)) (trace s')"

text \<open>The draws of a trace with the depth mask in effect at each of them, and the depth
  mask after the trace; \<open>m\<close> is the depth mask before the first command.\<close>

fun maskedDraws :: "bool \<Rightarrow> event list \<Rightarrow> (ref \<times> bool) list" where
  "maskedDraws m [] = []"
| "maskedDraws m (DepthMask b # es) = maskedDraws b es"
| "maskedDraws m (Render a v ts # es) = (a, m) # maskedDraws m es"
| "maskedDraws m (e # es) = maskedDraws m es"

fun maskAfter :: "bool \<Rightarrow> event list \<Rightarrow> bool" where
  "maskAfter m [] = m"
| "maskAfter m (DepthMask b # es) = maskAfter b es"
| "maskAfter m (e # es) = maskAfter m es"

subsection \<open>Notions used in the statements and proofs\<close>

text \<open>\<^verbatim>\<open>renderObject\<close> returns at once unless the object is visible and, for a pick
  variant, pickable.\<close>

definition drawable :: "string \<Rightarrow> renderable \<Rightarrow> bool" where
  "drawable v r = (visible (rstate r) \<and> (pickable (rstate r) \<or> \<not> isPickVariant v))"

text \<open>The objects of a list that a loop with the condition \<open>cond\<close> draws.\<close>

definition selected :: "(renderable \<Rightarrow> bool) \<Rightarrow> string \<Rightarrow> (ref \<Rightarrow> renderable) \<Rightarrow> ref list \<Rightarrow> ref list" where
  "selected cond v h as = filter (\<lambda>a. cond (h a) \<and> drawable v (h a)) as"

text \<open>An object without its clip defines, the only cells that \<^verbatim>\<open>renderObject\<close>
  writes; a condition that does not read them.\<close>

definition stripClip :: "renderable \<Rightarrow> renderable" where
  "stripClip r = r\<lparr> rvalues := (rvalues r)\<lparr> dClipObjectCount := 0, dClipVariant := [] \<rparr> \<rparr>"

definition clipIndependent :: "(renderable \<Rightarrow> bool) \<Rightarrow> bool" where
  "clipIndependent cond = (\<forall>r. cond r = cond (stripClip r))"

definition synced :: "clip \<Rightarrow> renderable \<Rightarrow> renderable" where
  "synced c r = fst (syncClipDefines c r)"

text \<open>The program with which the object at \<open>a\<close> is drawn in the state \<open>s\<close>: that of the
  object once its clip defines agree with the clip settings.\<close>

definition programOf :: "externals \<Rightarrow> string \<Rightarrow> renderer \<Rightarrow> ref \<Rightarrow> int" where
  "programOf ext v s a = getProgram ext a (synced (rclip s) (heap s a)) v"


text \<open>The start of every pass: its first commands, then \<^verbatim>\<open>updateInternal\<close>.\<close>

definition passStart :: "externals \<Rightarrow> group \<Rightarrow> camera \<Rightarrow> texture option \<Rightarrow> bool \<Rightarrow> event list \<Rightarrow> renderer \<Rightarrow> renderer" where
  "passStart ext g cam dt w es s = updateInternal ext g cam dt w (emit es s)"

text \<open>Commands that only the draw pass issues, never a pass of the renderer.\<close>

fun drawPassEvent :: "event \<Rightarrow> bool" where
  "drawPassEvent (BindTarget n) = True"
| "drawPassEvent UnbindFramebuffer = True"
| "drawPassEvent (AttachFramebuffer t n k) = True"
| "drawPassEvent DepthMergeUpdate = True"
| "drawPassEvent DepthMergeRender = True"
| "drawPassEvent WboitBind = True"
| "drawPassEvent (WboitRender vp) = True"
| "drawPassEvent SyncVisibility = True"
| "drawPassEvent Flush = True"
| "drawPassEvent e = False"


text \<open>The commands of \<^verbatim>\<open>renderBlendedTransparent\<close> before its first
  \<^verbatim>\<open>state.depthMask(true)\<close>.\<close>

definition blendCommands :: "renderer \<Rightarrow> event list" where
  "blendCommands s =
     Enable DEPTH_TEST # Enable SCISSOR_TEST # ColorMask True True True True #
     GlViewport (vx (rviewport s)) (vy (rviewport s)) (vwidth (rviewport s)) (vheight (rviewport s)) #
     GlScissor (vx (rviewport s)) (vy (rviewport s)) (vwidth (rviewport s)) (vheight (rviewport s)) #
     (if transparentBackground s then BlendFunc ONE ONE_MINUS_SRC_ALPHA
      else BlendFuncSeparate SRC_ALPHA ONE_MINUS_SRC_ALPHA ONE ONE_MINUS_SRC_ALPHA) #
     [Enable BLEND]"

text \<open>The conditions of the two loops of \<^verbatim>\<open>renderBlendedTransparent\<close>.\<close>

definition depthWriting :: "renderable \<Rightarrow> bool" where
  "depthWriting r = (\<not> opaque (rstate r) \<and> writeDepth (rstate r))"

definition notDepthWriting :: "renderable \<Rightarrow> bool" where
  "notDepthWriting r = (\<not> opaque (rstate r) \<and> \<not> writeDepth (rstate r))"

text \<open>The states of \<^verbatim>\<open>renderBlendedTransparent\<close> before its first loop, after it, and
  before its second loop.\<close>

definition transparentStart :: "externals \<Rightarrow> group \<Rightarrow> camera \<Rightarrow> texture option \<Rightarrow> renderer \<Rightarrow> renderer" where
  "transparentStart ext g cam dt s =
     emit [DepthMask True] (emit [Enable BLEND]
       (emit (if transparentBackground (passStart ext g cam dt False [Enable DEPTH_TEST] s)
              then [BlendFunc ONE ONE_MINUS_SRC_ALPHA]
              else [BlendFuncSeparate SRC_ALPHA ONE_MINUS_SRC_ALPHA ONE ONE_MINUS_SRC_ALPHA])
          (passStart ext g cam dt False [Enable DEPTH_TEST] s)))"

definition firstSubPass :: "externals \<Rightarrow> group \<Rightarrow> camera \<Rightarrow> texture option \<Rightarrow> renderer \<Rightarrow> renderer" where
  "firstSubPass ext g cam dt s =
     forEachRenderable ext depthWriting ''colorBlended'' (renderables g) (transparentStart ext g cam dt s)"

definition secondStart :: "externals \<Rightarrow> group \<Rightarrow> camera \<Rightarrow> texture option \<Rightarrow> renderer \<Rightarrow> renderer" where
  "secondStart ext g cam dt s = emit [DepthMask False] (firstSubPass ext g cam dt s)"

text \<open>A call of \<^verbatim>\<open>state.depthMask\<close>.\<close>

fun isDepthMask :: "event \<Rightarrow> bool" where
  "isDepthMask (DepthMask b) = True"
| "isDepthMask e = False"

text \<open>A draw pass after a sequence of calls of \<^verbatim>\<open>setSize\<close>.\<close>

fun resized :: "(real \<times> real) list \<Rightarrow> drawPass \<Rightarrow> drawPass" where
  "resized [] dp = dp"
| "resized ((w, h) # sizes) dp = resized sizes (DrawPass_setSize w h dp)"

text \<open>What the constructor establishes and \<^verbatim>\<open>setSize\<close> keeps: the four textures have
  one size, and the intermediate depth targets exist exactly when depth is packed and own
  the depth textures for primitives and volumes.\<close>

definition sizesAgree :: "drawPass \<Rightarrow> bool" where
  "sizesAgree dp =
     (textureSize dp (targetTexture (depthTarget dp)) = textureSize dp (targetTexture (colorTarget dp))
      \<and> textureSize dp (depthTexturePrimitives dp) = textureSize dp (targetTexture (colorTarget dp))
      \<and> textureSize dp (depthTextureVolumes dp) = textureSize dp (targetTexture (colorTarget dp))
      \<and> depthTargetPrimitives dp =
          (if packedDepth dp
           then Some \<lparr> framebuffer = 3, targetTexture = depthTexturePrimitives dp \<rparr> else None)
      \<and> depthTargetVolumes dp =
          (if packedDepth dp
           then Some \<lparr> framebuffer = 4, targetTexture = depthTextureVolumes dp \<rparr> else None))"

text \<open>A renderer after a sequence of calls of \<^verbatim>\<open>setProps\<close>.\<close>

fun configured :: "externals \<Rightarrow> partialProps list \<Rightarrow> renderer \<Rightarrow> renderer" where
  "configured ext [] s = s"
| "configured ext (pp # pps) s = configured ext pps (setProps ext pp s)"

text \<open>Every value that a partial configuration gives is the current one.\<close>

definition unchangedProps :: "rendererProps \<Rightarrow> partialProps \<Rightarrow> bool" where
  "unchangedProps p pp =
     (backgroundColor' pp \<in> {None, Some (backgroundColor p)}
      \<and> pickingAlphaThreshold' pp \<in> {None, Some (pickingAlphaThreshold p)}
      \<and> interiorDarkening' pp \<in> {None, Some (interiorDarkening p)}
      \<and> interiorColorFlag' pp \<in> {None, Some (interiorColorFlag p)}
      \<and> interiorColor' pp \<in> {None, Some (interiorColor p)}
      \<and> highlightColor' pp \<in> {None, Some (highlightColor p)}
      \<and> selectColor' pp \<in> {None, Some (selectColor p)}
      \<and> pstyle' pp \<in> {None, Some (pstyle p)}
      \<and> pclip' pp \<in> {None, Some (pclip p)})"

text \<open>What \<^verbatim>\<open>Renderer.create\<close> establishes and \<^verbatim>\<open>setProps\<close> keeps: the variable
  \<^verbatim>\<open>style\<close> and the five cells of the lighting style hold the numbers of the configured
  style.\<close>

definition styleInSync :: "renderer \<Rightarrow> bool" where
  "styleInSync s =
     (style s = getStyle (pstyle (props s))
      \<and> cellValue (globalUniforms s ''uLightIntensity'') = UNumber (lightIntensity (style s))
      \<and> cellValue (globalUniforms s ''uAmbientIntensity'') = UNumber (ambientIntensity (style s))
      \<and> cellValue (globalUniforms s ''uMetalness'') = UNumber (metalness (style s))
      \<and> cellValue (globalUniforms s ''uRoughness'') = UNumber (roughness (style s))
      \<and> cellValue (globalUniforms s ''uReflectivity'') = UNumber (reflectivity (style s)))"

text \<open>A renderer in use: made by \<^verbatim>\<open>Renderer.create\<close> and then taken through any
  sequence of calls of its methods and of \<^verbatim>\<open>DrawPass.render\<close>, while other code may
  bind programs, issue commands and change the renderables.\<close>

inductive inUse :: "externals \<Rightarrow> renderer \<Rightarrow> bool" for ext :: externals where
  "inUse ext (create ext ctx pp h)"
| "inUse ext s \<Longrightarrow> inUse ext (setProps ext pp s)"
| "inUse ext s \<Longrightarrow> inUse ext (setViewport x y w h' s)"
| "inUse ext s \<Longrightarrow> inUse ext (setTransparentBackground b s)"
| "inUse ext s \<Longrightarrow> inUse ext (setDrawingBufferSize w h' s)"
| "inUse ext s \<Longrightarrow> inUse ext (clear b s)"
| "inUse ext s \<Longrightarrow> inUse ext (clearDepth s)"
| "inUse ext s \<Longrightarrow> inUse ext (update ext cam s)"
| "inUse ext s \<Longrightarrow> inUse ext (renderPick ext g cam v dt s)"
| "inUse ext s \<Longrightarrow> inUse ext (renderDepth ext g cam dt s)"
| "inUse ext s \<Longrightarrow> inUse ext (renderBlended ext g cam dt s)"
| "inUse ext s \<Longrightarrow> inUse ext (renderBlendedOpaque ext g cam dt s)"
| "inUse ext s \<Longrightarrow> inUse ext (renderBlendedTransparent ext g cam dt s)"
| "inUse ext s \<Longrightarrow> inUse ext (renderBlendedVolume ext g cam dt s)"
| "inUse ext s \<Longrightarrow> inUse ext (renderWboitOpaque ext g cam dt s)"
| "inUse ext s \<Longrightarrow> inUse ext (renderWboitTransparent ext g cam dt s)"
| "inUse ext s \<Longrightarrow> DrawPass_render ext dp c sc hp toDrawingBuffer transparentBg s = Inr (hp', s')
     \<Longrightarrow> inUse ext s'"
| "inUse ext s \<Longrightarrow>
     inUse ext (s\<lparr> currentProgramId := q, currentRenderItemId := i, heap := h, trace := t \<rparr>)"

subsection \<open>Sample inputs\<close>

text \<open>Concrete inputs on which the general statements are instantiated. The functions of
  \<open>sampleExternals\<close> stand in for the code outside the sources; the program of an object
  is the parity of its reference.\<close>

definition sampleExternals :: externals where
  "sampleExternals =
     \<lparr> getProgram = (\<lambda>a r v. int (a mod 2)),
       Mat4_mul = (\<lambda>a b. a),
       Mat4_invert = (\<lambda>a. a),
       Vec3_normalize = (\<lambda>a. a),
       Vec3_sub = (\<lambda>a b. a),
       Color_toVec3Normalized = (\<lambda>c. [c, c, c]),
       Color_fromNormalizedRgb = (\<lambda>r g b. r),
       Quat_setAxisAngle = (\<lambda>a x. [0, 0, 0, 1]),
       degToRad = (\<lambda>x. x),
       Clipping_Type = (\<lambda>t. 1),
       syncVisibility = (\<lambda>h. h),
       helperCameraUpdate = (\<lambda>hc c. hc) \<rparr>"

definition sampleContext :: webGLContext where
  "sampleContext =
     \<lparr> drawingBufferWidth = 640, drawingBufferHeight = 480, pixelRatio = 1,
       ext_fragDepth = True, ext_depthTexture = True, wboitSupported = True,
       stateProgramId = - 1, stateRenderItemId = - 1 \<rparr>"

definition noProps :: partialProps where
  "noProps =
     \<lparr> backgroundColor' = None, pickingAlphaThreshold' = None, interiorDarkening' = None,
       interiorColorFlag' = None, interiorColor' = None, highlightColor' = None,
       selectColor' = None, pstyle' = None, pclip' = None \<rparr>"

text \<open>A visible, opaque mesh with alpha 1 and no transparency.\<close>

definition plainObject :: renderable where
  "plainObject =
     \<lparr> rstate = \<lparr> visible = True, pickable = True, noClip = False, colorOnly = False,
                  opaque = True, writeDepth = False, alphaFactor = 1 \<rparr>,
       rvalues = \<lparr> dClipObjectCount = 0, dClipVariant = ''instance'', dRenderMode = None,
                   uAlpha = 1, dDoubleSided = Some False, hasReflection = False,
                   dFlipSided = Some False, alpha = 1, transparencyAverage = 0,
                   dPointFilledCircle = None, dXrayShaded = None, uBackgroundColor = None \<rparr> \<rparr>"

text \<open>The same mesh with half of its surface made transparent by a transparency layer.\<close>

definition halfTransparentObject :: renderable where
  "halfTransparentObject = plainObject\<lparr> rvalues := (rvalues plainObject)\<lparr> transparencyAverage := 0.5 \<rparr> \<rparr>"

text \<open>A label with a background colour.\<close>

definition labelObject :: renderable where
  "labelObject = plainObject\<lparr> rvalues := (rvalues plainObject)\<lparr> uBackgroundColor := Some [1, 1, 1] \<rparr> \<rparr>"

text \<open>A hidden object with alpha 0.5.\<close>

definition hiddenObject :: renderable where
  "hiddenObject =
     plainObject\<lparr> rstate := (rstate plainObject)\<lparr> visible := False, opaque := False \<rparr>,
                  rvalues := (rvalues plainObject)\<lparr> alpha := 0.5, uAlpha := 0.5 \<rparr> \<rparr>"

text \<open>A visible object with alpha 0.5, and one that also writes depth.\<close>

definition transparentObject :: renderable where
  "transparentObject =
     plainObject\<lparr> rstate := (rstate plainObject)\<lparr> opaque := False \<rparr>,
                  rvalues := (rvalues plainObject)\<lparr> alpha := 0.5, uAlpha := 0.5 \<rparr> \<rparr>"

definition depthWritingObject :: renderable where
  "depthWritingObject = transparentObject\<lparr> rstate := (rstate transparentObject)\<lparr> writeDepth := True \<rparr> \<rparr>"

text \<open>A direct volume with alpha 1.\<close>

definition volumeObject :: renderable where
  "volumeObject =
     plainObject\<lparr> rstate := (rstate plainObject)\<lparr> opaque := False \<rparr>,
                  rvalues := (rvalues plainObject)\<lparr> dRenderMode := Some ''volume'' \<rparr> \<rparr>"

text \<open>A direct volume that writes depth.\<close>

definition depthWritingVolume :: renderable where
  "depthWritingVolume = volumeObject\<lparr> rstate := (rstate volumeObject)\<lparr> writeDepth := True \<rparr> \<rparr>"

definition sampleCamera :: camera where
  "sampleCamera =
     \<lparr> cview = Mat4_identity, cprojection = Mat4_identity,
       cviewport = \<lparr> vx = 0, vy = 0, vwidth = 640, vheight = 480 \<rparr>,
       cstate = \<lparr> mode = ''perspective'', position = [0, 0, 10], target = [0, 0, 0] \<rparr>,
       cviewOffset = \<lparr> voEnabled = False, offsetX = 0, offsetY = 0 \<rparr>,
       near = 1, far = 100, fogNear = 50, fogFar = 100 \<rparr>"

definition groupOf :: "ref list \<Rightarrow> group" where
  "groupOf as = \<lparr> gview = Mat4_identity, renderables = as \<rparr>"

text \<open>A heap that holds the objects of a list at the references 0, 1, ...; every other
  reference holds a plain object.\<close>

definition heapOf :: "renderable list \<Rightarrow> ref \<Rightarrow> renderable" where
  "heapOf rs a = (if a < length rs then rs ! a else plainObject)"

text \<open>A scene with the given primitives and volumes, and a helper with every overlay
  disabled.\<close>

definition sceneOf :: "ref list \<Rightarrow> ref list \<Rightarrow> scene" where
  "sceneOf prims vols =
     \<lparr> gview = Mat4_identity, renderables = prims @ vols,
       primitives = groupOf prims, volumes = groupOf vols \<rparr>"

definition sampleHelper :: helper where
  "sampleHelper =
     \<lparr> debug = \<lparr> isEnabled = False, hscene = sceneOf [] [] \<rparr>,
       handle = \<lparr> isEnabled = False, hscene = sceneOf [] [] \<rparr>,
       chelper = \<lparr> isEnabled = False, hscene = sceneOf [] [], hcamera = sampleCamera \<rparr> \<rparr>"

definition sampleRenderer :: "renderable list \<Rightarrow> renderer" where
  "sampleRenderer rs = create sampleExternals sampleContext noProps (heapOf rs)"

text \<open>A renderer in use, and a call of \<^verbatim>\<open>setProps\<close> that gives it its current interior
  colour and style and a new highlight colour.\<close>

definition usedRenderer :: renderer where
  "usedRenderer =
     renderDepth sampleExternals (groupOf [0]) sampleCamera None
       (setViewport 0 0 640 480
          (configured sampleExternals [noProps\<lparr> pstyle' := Some Glossy \<rparr>]
             (sampleRenderer [plainObject])))"

definition mixedProps :: partialProps where
  "mixedProps = noProps\<lparr> interiorColor' := Some 0.3, highlightColor' := Some 255,
                         pstyle' := Some Glossy \<rparr>"

section \<open>Properties\<close>

lemma clamp_unit: "clamp v 0 1 = 1 \<longleftrightarrow> 1 \<le> v"
  by (auto simp: clamp_def max_def min_def)

lemma stripClip_synced: "stripClip (synced c r) = stripClip r"
  by (simp add: synced_def syncClipDefines_def stripClip_def Let_def split: prod.splits if_splits)

lemma rstate_synced: "rstate (synced c r) = rstate r"
  by (simp add: synced_def syncClipDefines_def Let_def split: prod.splits if_splits)

lemma synced_idem: "synced c (synced c r) = synced c r"
  by (simp add: synced_def syncClipDefines_def Let_def split: prod.splits if_splits)

lemma draws_append: "draws (xs @ ys) = draws xs @ draws ys"
  by (induction xs rule: draws.induct) simp_all


lemma draws_drawStateEvents: "draws (drawStateEvents f v vals) = []"
  by (simp add: drawStateEvents_def split: option.splits)


lemma newEvents_self: "newEvents s s = []"
  by (simp add: newEvents_def)

lemma newEvents_emit: "newEvents s (emit es s) = es"
  by (simp add: newEvents_def emit_def)

lemma newEvents_trans:
  assumes "trace s1 = trace s @ newEvents s s1" and "trace s2 = trace s1 @ newEvents s1 s2"
  shows "newEvents s s2 = newEvents s s1 @ newEvents s1 s2"
    and "trace s2 = trace s @ newEvents s s2"
proof -
  have *: "trace s2 = trace s @ (newEvents s s1 @ newEvents s1 s2)"
    using assms by (metis append.assoc)
  then show "newEvents s s2 = newEvents s s1 @ newEvents s1 s2"
    by (simp add: newEvents_def[of s s2])
  then show "trace s2 = trace s @ newEvents s s2"
    using * by simp
qed

subsection \<open>One object\<close>

lemma renderObject_skip:
  "\<not> drawable v (heap s a) \<Longrightarrow> renderObject ext a v s = s"
  by (auto simp: renderObject_def drawable_def Let_def)

lemma trace_renderObject:
  "trace (renderObject ext a v s) = trace s @ newEvents s (renderObject ext a v s)"
  by (simp add: renderObject_def newEvents_def emit_def Let_def split: prod.splits)

lemma draws_renderObject:
  "draws (newEvents s (renderObject ext a v s)) = (if drawable v (heap s a) then [(a, v)] else [])"
  by (auto simp add: renderObject_def newEvents_def emit_def Let_def drawable_def draws_append draws_drawStateEvents split: prod.splits)

lemma heap_renderObject:
  "heap (renderObject ext a v s) =
     (if drawable v (heap s a) then (heap s)(a := synced (rclip s) (heap s a)) else heap s)"
  by (auto simp add: renderObject_def emit_def Let_def drawable_def synced_def split: prod.splits)

lemma rclip_renderObject: "rclip (renderObject ext a v s) = rclip s"
  by (auto simp add: renderObject_def emit_def Let_def split: prod.splits)




subsection \<open>The loop over a group\<close>

lemma clipIndependent_synced:
  "clipIndependent cond \<Longrightarrow> cond (synced c r) = cond r"
  by (metis clipIndependent_def stripClip_synced)

lemma drawable_synced: "drawable v (synced c r) = drawable v r"
  by (simp add: drawable_def rstate_synced)

lemma selected_Cons:
  "selected cond v h (a # as) =
     (if cond (h a) \<and> drawable v (h a) then a # selected cond v h as else selected cond v h as)"
  by (simp add: selected_def)

lemma selected_Nil: "selected cond v h [] = []"
  by (simp add: selected_def)

lemma selected_upd:
  assumes "clipIndependent cond"
  shows "selected cond v (h(a := synced c (h a))) as = selected cond v h as"
  unfolding selected_def
  by (rule filter_cong) (auto simp: clipIndependent_synced[OF assms] drawable_synced)

lemma selected_renderObject:
  assumes "clipIndependent cond"
  shows "selected cond v (heap (renderObject ext a w s)) as = selected cond v (heap s) as"
  by (simp add: heap_renderObject selected_upd[OF assms])

lemma forEach_Cons_sel:
  "cond (heap s a) \<and> drawable v (heap s a) \<Longrightarrow>
     forEachRenderable ext cond v (a # as) s = forEachRenderable ext cond v as (renderObject ext a v s)"
  by simp

lemma forEach_Cons_skip:
  "\<not> (cond (heap s a) \<and> drawable v (heap s a)) \<Longrightarrow>
     forEachRenderable ext cond v (a # as) s = forEachRenderable ext cond v as s"
  by (auto simp: renderObject_skip)

lemma trace_forEach:
  "trace (forEachRenderable ext cond v as s) = trace s @ newEvents s (forEachRenderable ext cond v as s)"
proof (induction as arbitrary: s)
  case Nil
  show ?case by (simp add: newEvents_self)
next
  case (Cons a as)
  show ?case
  proof (cases "cond (heap s a) \<and> drawable v (heap s a)")
    case True
    show ?thesis
      unfolding forEach_Cons_sel[where cond=cond, OF True]
      by (rule newEvents_trans(2)[OF trace_renderObject Cons.IH])
  next
    case False
    show ?thesis
      unfolding forEach_Cons_skip[where cond=cond, OF False] by (rule Cons.IH)
  qed
qed

lemma newEvents_forEach_sel:
  assumes "cond (heap s a) \<and> drawable v (heap s a)"
  shows "newEvents s (forEachRenderable ext cond v (a # as) s) =
           newEvents s (renderObject ext a v s) @
           newEvents (renderObject ext a v s) (forEachRenderable ext cond v as (renderObject ext a v s))"
  unfolding forEach_Cons_sel[where cond=cond, OF assms]
  by (rule newEvents_trans(1)[OF trace_renderObject trace_forEach])


lemma draws_forEach:
  assumes "clipIndependent cond"
  shows "draws (newEvents s (forEachRenderable ext cond v as s)) =
           map (\<lambda>a. (a, v)) (selected cond v (heap s) as)"
proof (induction as arbitrary: s)
  case Nil
  show ?case by (simp add: newEvents_self selected_def)
next
  case (Cons a as)
  show ?case
  proof (cases "cond (heap s a) \<and> drawable v (heap s a)")
    case True
    then show ?thesis
      by (simp only: newEvents_forEach_sel[where cond=cond, OF True] draws_append draws_renderObject Cons.IH
            selected_renderObject[OF assms] selected_Cons) simp
  next
    case False
    then show ?thesis
      by (simp only: forEach_Cons_skip[where cond=cond, OF False] Cons.IH selected_Cons) simp
  qed
qed

lemma heap_forEach:
  assumes "clipIndependent cond"
  shows "heap (forEachRenderable ext cond v as s) b =
           (if b \<in> set (selected cond v (heap s) as) then synced (rclip s) (heap s b) else heap s b)"
proof (induction as arbitrary: s)
  case Nil
  show ?case by (simp add: selected_def)
next
  case (Cons a as)
  show ?case
  proof (cases "cond (heap s a) \<and> drawable v (heap s a)")
    case True
    then show ?thesis
      by (simp only: forEach_Cons_sel[where cond=cond, OF True] Cons.IH selected_renderObject[OF assms]
            selected_Cons rclip_renderObject)
         (simp add: heap_renderObject synced_idem)
  next
    case False
    then show ?thesis
      by (simp only: forEach_Cons_skip[where cond=cond, OF False] Cons.IH selected_Cons) simp
  qed
qed








subsection \<open>A pass: commands, \<^verbatim>\<open>updateInternal\<close>, the loop\<close>

lemma trace_passStart:
  "trace (passStart ext g cam dt w es s) =
     trace s @ es @ [Enable SCISSOR_TEST, ColorMask True True True True,
       GlViewport (vx (rviewport s)) (vy (rviewport s)) (vwidth (rviewport s)) (vheight (rviewport s)),
       GlScissor (vx (rviewport s)) (vy (rviewport s)) (vwidth (rviewport s)) (vheight (rviewport s))]"
  by (simp add: passStart_def updateInternal_def emit_def updateUniforms_def Let_def)

lemma fields_passStart:
  "heap (passStart ext g cam dt w es s) = heap s"
  "rclip (passStart ext g cam dt w es s) = rclip s"
  "globalUniformsNeedUpdate (passStart ext g cam dt w es s) = True"
  "currentProgramId (passStart ext g cam dt w es s) = currentProgramId s"
  "transparentBackground (passStart ext g cam dt w es s) = transparentBackground s"
  "fragDepth (passStart ext g cam dt w es s) = fragDepth s"
  by (simp_all add: passStart_def updateInternal_def emit_def updateUniforms_def Let_def)

lemma newEvents_passStart:
  "newEvents s (passStart ext g cam dt w es s) =
     es @ [Enable SCISSOR_TEST, ColorMask True True True True,
       GlViewport (vx (rviewport s)) (vy (rviewport s)) (vwidth (rviewport s)) (vheight (rviewport s)),
       GlScissor (vx (rviewport s)) (vy (rviewport s)) (vwidth (rviewport s)) (vheight (rviewport s))]"
  by (simp add: newEvents_def trace_passStart)

lemma trace_passStart': 
  "trace (passStart ext g cam dt w es s) = trace s @ newEvents s (passStart ext g cam dt w es s)"
  by (simp add: newEvents_passStart trace_passStart)


lemma pass_trace:
  "trace (forEachRenderable ext cond v as (passStart ext g cam dt w es s)) =
     trace s @ newEvents s (forEachRenderable ext cond v as (passStart ext g cam dt w es s))"
  by (rule newEvents_trans(2)[OF trace_passStart' trace_forEach])

lemma pass_newEvents:
  "newEvents s (forEachRenderable ext cond v as (passStart ext g cam dt w es s)) =
     newEvents s (passStart ext g cam dt w es s) @
     newEvents (passStart ext g cam dt w es s)
       (forEachRenderable ext cond v as (passStart ext g cam dt w es s))"
  by (rule newEvents_trans(1)[OF trace_passStart' trace_forEach])

lemma pass_draws:
  assumes "clipIndependent cond" and "draws es = []"
  shows "draws (newEvents s (forEachRenderable ext cond v as (passStart ext g cam dt w es s))) =
           map (\<lambda>a. (a, v)) (selected cond v (heap s) as)"
  by (simp add: pass_newEvents draws_append draws_forEach[OF assms(1)] newEvents_passStart
        assms(2) fields_passStart)


lemma pass_heap:
  assumes "clipIndependent cond"
  shows "heap (forEachRenderable ext cond v as (passStart ext g cam dt w es s)) b =
           (if b \<in> set (selected cond v (heap s) as) then synced (rclip s) (heap s b) else heap s b)"
  by (simp add: heap_forEach[OF assms] fields_passStart)

lemma clipIndependent_conds:
  "clipIndependent (\<lambda>r. True)"
  "clipIndependent (\<lambda>r. \<not> colorOnly (rstate r))"
  "clipIndependent (\<lambda>r. opaque (rstate r))"
  "clipIndependent (\<lambda>r. \<not> opaque (rstate r) \<and> writeDepth (rstate r))"
  "clipIndependent (\<lambda>r. \<not> opaque (rstate r) \<and> \<not> writeDepth (rstate r))"
  "clipIndependent wboitOpaque"
  "clipIndependent wboitTransparent"
  by (simp_all add: clipIndependent_def stripClip_def wboitOpaque_def wboitTransparent_def)

lemma renderWboitOpaque_pass:
  "renderWboitOpaque ext g cam dt s =
     forEachRenderable ext wboitOpaque ''colorWboit'' (renderables g)
       (passStart ext g cam dt False [Disable BLEND, Enable DEPTH_TEST, DepthMask True] s)"
  by (simp add: renderWboitOpaque_def passStart_def)

lemma renderWboitTransparent_pass:
  "renderWboitTransparent ext g cam dt s =
     forEachRenderable ext wboitTransparent ''colorWboit'' (renderables g)
       (passStart ext g cam dt True [] s)"
  by (simp add: renderWboitTransparent_def passStart_def emit_def)

lemma drawable_colorWboit: "drawable ''colorWboit'' r = visible (rstate r)"
  by (simp add: drawable_def isPickVariant_def)

lemma drawable_colorBlended: "drawable ''colorBlended'' r = visible (rstate r)"
  by (simp add: drawable_def isPickVariant_def)

lemma drawable_depth: "drawable ''depth'' r = visible (rstate r)"
  by (simp add: drawable_def isPickVariant_def)

lemma wboitOpaque_iff:
  "wboitOpaque r \<longleftrightarrow>
     effectiveAlpha r = 1 \<and> transparencyAverage (rvalues r) \<noteq> 1 \<and> \<not> volumetric r
     \<and> \<not> filledCirclePoint r \<and> \<not> xrayShaded r"
  by (simp add: wboitOpaque_def effectiveAlpha_def volumetric_def filledCirclePoint_def
        xrayShaded_def Let_def)

lemma wboitTransparent_iff:
  "wboitTransparent r \<longleftrightarrow>
     effectiveAlpha r < 1 \<or> transparencyAverage (rvalues r) > 0 \<or> volumetric r
     \<or> filledCirclePoint r \<or> backgroundOverride r \<or> xrayShaded r"
  by (simp add: wboitTransparent_def effectiveAlpha_def volumetric_def filledCirclePoint_def
        xrayShaded_def backgroundOverride_def Let_def)

lemma draws_renderWboitOpaque:
  "draws (newEvents s (renderWboitOpaque ext g cam dt s)) =
     map (\<lambda>a. (a, ''colorWboit''))
       (filter (\<lambda>a. wboitOpaque (heap s a) \<and> visible (rstate (heap s a))) (renderables g))"
  by (simp add: renderWboitOpaque_pass pass_draws clipIndependent_conds selected_def
        drawable_colorWboit)

lemma draws_renderWboitTransparent:
  "draws (newEvents s (renderWboitTransparent ext g cam dt s)) =
     map (\<lambda>a. (a, ''colorWboit''))
       (filter (\<lambda>a. wboitTransparent (heap s a) \<and> visible (rstate (heap s a))) (renderables g))"
  by (simp add: renderWboitTransparent_pass pass_draws clipIndependent_conds selected_def
        drawable_colorWboit)

lemma heap_sampleRenderer: "heap (sampleRenderer rs) = heapOf rs"
  by (simp add: sampleRenderer_def create_def Let_def)

lemma sample_effectiveAlpha:
  "effectiveAlpha plainObject = 1"
  "effectiveAlpha halfTransparentObject = 1"
  "effectiveAlpha labelObject = 1"
  "effectiveAlpha hiddenObject = 1 / 2"
  "effectiveAlpha transparentObject = 1 / 2"
  "effectiveAlpha volumeObject = 1"
  by (simp_all add: effectiveAlpha_def clamp_def plainObject_def halfTransparentObject_def
        labelObject_def hiddenObject_def transparentObject_def volumeObject_def)

lemma sample_flags:
  "\<not> volumetric plainObject" "\<not> filledCirclePoint plainObject" "\<not> xrayShaded plainObject"
  "\<not> backgroundOverride plainObject" "transparencyAverage (rvalues plainObject) = 0"
  "visible (rstate plainObject)"
  "\<not> volumetric halfTransparentObject" "\<not> filledCirclePoint halfTransparentObject"
  "\<not> xrayShaded halfTransparentObject" "\<not> backgroundOverride halfTransparentObject"
  "transparencyAverage (rvalues halfTransparentObject) = 1 / 2"
  "visible (rstate halfTransparentObject)"
  "\<not> volumetric labelObject" "\<not> filledCirclePoint labelObject" "\<not> xrayShaded labelObject"
  "backgroundOverride labelObject" "transparencyAverage (rvalues labelObject) = 0"
  "visible (rstate labelObject)"
  "\<not> volumetric hiddenObject" "\<not> filledCirclePoint hiddenObject" "\<not> xrayShaded hiddenObject"
  "\<not> backgroundOverride hiddenObject" "transparencyAverage (rvalues hiddenObject) = 0"
  "\<not> visible (rstate hiddenObject)"
  "\<not> volumetric transparentObject" "\<not> filledCirclePoint transparentObject"
  "\<not> xrayShaded transparentObject" "\<not> backgroundOverride transparentObject"
  "transparencyAverage (rvalues transparentObject) = 0" "visible (rstate transparentObject)"
  "volumetric volumeObject" "visible (rstate volumeObject)"
  by (simp_all add: volumetric_def filledCirclePoint_def xrayShaded_def backgroundOverride_def
        plainObject_def halfTransparentObject_def labelObject_def hiddenObject_def
        transparentObject_def volumeObject_def)

subsection \<open>The two classifications of the order-independent path\<close>




lemma trace_renderWboitOpaque:
  "trace (renderWboitOpaque ext g cam dt s) = trace s @ newEvents s (renderWboitOpaque ext g cam dt s)"
  by (simp only: renderWboitOpaque_pass pass_trace)

lemma trace_renderWboitTransparent:
  "trace (renderWboitTransparent ext g cam dt s) =
     trace s @ newEvents s (renderWboitTransparent ext g cam dt s)"
  by (simp only: renderWboitTransparent_pass pass_trace)

lemma heapOf_simps:
  "heapOf (r # rs) 0 = r"
  "heapOf (r # rs) (Suc n) = (if n < length rs then rs ! n else plainObject)"
  "heapOf [] n = plainObject"
  by (simp_all add: heapOf_def)

lemma spec_sample:
  "\<not> spec_wboitOpaque halfTransparentObject"
  "spec_wboitTransparent hiddenObject"
  by (simp_all add: spec_wboitOpaque_def spec_wboitTransparent_def sample_flags sample_effectiveAlpha)

lemma groupOf_simps: "renderables (groupOf as) = as"
  by (simp add: groupOf_def)

text \<open>
  Claim C2, as the code has it. \<^verbatim>\<open>renderWboitOpaque\<close> draws the objects of the group, in
  the order of the group and with the variant \<^verbatim>\<open>colorWboit\<close>, that are visible and for
  which \<^verbatim>\<open>clamp(alpha * alphaFactor, 0, 1)\<close> is 1, the average transparency is not 1, and
  that are not volumetric, not filled circular points and not x-ray shaded; it draws no
  other object.
\<close>

theorem renderWboitOpaque_draws:
  "trace (renderWboitOpaque ext g cam dt s) = trace s @ newEvents s (renderWboitOpaque ext g cam dt s)
   \<and> draws (newEvents s (renderWboitOpaque ext g cam dt s)) =
       map (\<lambda>a. (a, ''colorWboit''))
         (filter (\<lambda>a. visible (rstate (heap s a)) \<and> effectiveAlpha (heap s a) = 1
                     \<and> transparencyAverage (rvalues (heap s a)) \<noteq> 1
                     \<and> \<not> volumetric (heap s a) \<and> \<not> filledCirclePoint (heap s a)
                     \<and> \<not> xrayShaded (heap s a))
            (renderables g))"
proof -
  have "(\<lambda>a. wboitOpaque (heap s a) \<and> visible (rstate (heap s a))) =
        (\<lambda>a. visible (rstate (heap s a)) \<and> effectiveAlpha (heap s a) = 1
                     \<and> transparencyAverage (rvalues (heap s a)) \<noteq> 1
                     \<and> \<not> volumetric (heap s a) \<and> \<not> filledCirclePoint (heap s a)
                     \<and> \<not> xrayShaded (heap s a))"
    by (auto simp: wboitOpaque_iff)
  then show ?thesis
    using trace_renderWboitOpaque[of ext g cam dt s] draws_renderWboitOpaque[of s ext g cam dt]
    by simp
qed

text \<open>Of a plain mesh, a half transparent mesh, a hidden object and an object with alpha
  0.5, the pass draws the first two.\<close>

theorem renderWboitOpaque_draws_witness:
  "draws (newEvents (sampleRenderer [plainObject, halfTransparentObject, hiddenObject, transparentObject])
       (renderWboitOpaque sampleExternals (groupOf [0, 1, 2, 3]) sampleCamera None
          (sampleRenderer [plainObject, halfTransparentObject, hiddenObject, transparentObject]))) =
     [(0, ''colorWboit''), (1, ''colorWboit'')]"
  using renderWboitOpaque_draws[of sampleExternals "groupOf [0, 1, 2, 3]" sampleCamera None
      "sampleRenderer [plainObject, halfTransparentObject, hiddenObject, transparentObject]"]
  by (simp add: heap_sampleRenderer groupOf_simps heapOf_def sample_flags sample_effectiveAlpha)

text \<open>The claim as worded fails on the mesh of which half is transparent: its average
  transparency is 0.5, not 0, and the pass draws it.\<close>

theorem renderWboitOpaque_counterexample:
  "(1, ''colorWboit'') \<in> set (draws (newEvents (sampleRenderer [plainObject, halfTransparentObject])
       (renderWboitOpaque sampleExternals (groupOf [0, 1]) sampleCamera None
          (sampleRenderer [plainObject, halfTransparentObject]))))
   \<and> \<not> spec_wboitOpaque (heap (sampleRenderer [plainObject, halfTransparentObject]) 1)"
  by (simp add: draws_renderWboitOpaque heap_sampleRenderer groupOf_simps heapOf_def
        wboitOpaque_iff sample_flags sample_effectiveAlpha spec_sample)

text \<open>
  Claim C3, as the code has it. \<^verbatim>\<open>renderWboitTransparent\<close> draws the objects of the
  group, in the order of the group and with the variant \<^verbatim>\<open>colorWboit\<close>, that are visible
  and for which \<^verbatim>\<open>clamp(alpha * alphaFactor, 0, 1)\<close> is below 1, or the average
  transparency is positive, or that are volumetric, filled circular points, declare a
  background colour or are x-ray shaded; it draws no other object. So every visible
  volumetric object of the group is drawn in this phase, whatever its alpha.
\<close>

theorem renderWboitTransparent_draws:
  "trace (renderWboitTransparent ext g cam dt s) =
     trace s @ newEvents s (renderWboitTransparent ext g cam dt s)
   \<and> draws (newEvents s (renderWboitTransparent ext g cam dt s)) =
       map (\<lambda>a. (a, ''colorWboit''))
         (filter (\<lambda>a. visible (rstate (heap s a))
                     \<and> (effectiveAlpha (heap s a) < 1
                        \<or> transparencyAverage (rvalues (heap s a)) > 0
                        \<or> volumetric (heap s a) \<or> filledCirclePoint (heap s a)
                        \<or> backgroundOverride (heap s a) \<or> xrayShaded (heap s a)))
            (renderables g))
   \<and> (a \<in> set (renderables g) \<and> visible (rstate (heap s a)) \<and> volumetric (heap s a)
        \<longrightarrow> (a, ''colorWboit'') \<in> set (draws (newEvents s (renderWboitTransparent ext g cam dt s))))"
proof -
  have "(\<lambda>a. wboitTransparent (heap s a) \<and> visible (rstate (heap s a))) =
        (\<lambda>a. visible (rstate (heap s a))
                     \<and> (effectiveAlpha (heap s a) < 1
                        \<or> transparencyAverage (rvalues (heap s a)) > 0
                        \<or> volumetric (heap s a) \<or> filledCirclePoint (heap s a)
                        \<or> backgroundOverride (heap s a) \<or> xrayShaded (heap s a)))"
    by (auto simp: wboitTransparent_iff)
  then have d: "draws (newEvents s (renderWboitTransparent ext g cam dt s)) =
       map (\<lambda>a. (a, ''colorWboit''))
         (filter (\<lambda>a. visible (rstate (heap s a))
                     \<and> (effectiveAlpha (heap s a) < 1
                        \<or> transparencyAverage (rvalues (heap s a)) > 0
                        \<or> volumetric (heap s a) \<or> filledCirclePoint (heap s a)
                        \<or> backgroundOverride (heap s a) \<or> xrayShaded (heap s a)))
            (renderables g))"
    using draws_renderWboitTransparent[of s ext g cam dt] by simp
  show ?thesis
    using trace_renderWboitTransparent[of ext g cam dt s]
    by (simp only: d) auto
qed

text \<open>Of a plain mesh, a direct volume with alpha 1, a hidden object with alpha 0.5 and a
  visible object with alpha 0.5, the pass draws the volume and the last.\<close>

theorem renderWboitTransparent_draws_witness:
  "draws (newEvents (sampleRenderer [plainObject, volumeObject, hiddenObject, transparentObject])
       (renderWboitTransparent sampleExternals (groupOf [0, 1, 2, 3]) sampleCamera None
          (sampleRenderer [plainObject, volumeObject, hiddenObject, transparentObject]))) =
     [(1, ''colorWboit''), (3, ''colorWboit'')]
   \<and> 1 \<in> set (renderables (groupOf [0, 1, 2, 3]))
   \<and> visible (rstate (heap (sampleRenderer [plainObject, volumeObject, hiddenObject, transparentObject]) 1))
   \<and> volumetric (heap (sampleRenderer [plainObject, volumeObject, hiddenObject, transparentObject]) 1)
   \<and> effectiveAlpha (heap (sampleRenderer [plainObject, volumeObject, hiddenObject, transparentObject]) 1) = 1
   \<and> (1, ''colorWboit'') \<in> set (draws
         (newEvents (sampleRenderer [plainObject, volumeObject, hiddenObject, transparentObject])
           (renderWboitTransparent sampleExternals (groupOf [0, 1, 2, 3]) sampleCamera None
              (sampleRenderer [plainObject, volumeObject, hiddenObject, transparentObject]))))"
  using renderWboitTransparent_draws[of sampleExternals "groupOf [0, 1, 2, 3]" sampleCamera None
      "sampleRenderer [plainObject, volumeObject, hiddenObject, transparentObject]" 1]
  by (simp add: heap_sampleRenderer groupOf_simps heapOf_def sample_flags sample_effectiveAlpha)

text \<open>The claim as worded fails on the hidden object: its alpha is 0.5, and the pass does
  not draw it.\<close>

theorem renderWboitTransparent_counterexample:
  "spec_wboitTransparent (heap (sampleRenderer [hiddenObject]) 0)
   \<and> draws (newEvents (sampleRenderer [hiddenObject])
       (renderWboitTransparent sampleExternals (groupOf [0]) sampleCamera None
          (sampleRenderer [hiddenObject]))) = []"
  by (simp add: draws_renderWboitTransparent heap_sampleRenderer groupOf_simps heapOf_def
        sample_flags spec_sample)

subsection \<open>Commands between the loops\<close>

lemma fields_emit:
  "trace (emit es s) = trace s @ es"
  "heap (emit es s) = heap s"
  "rclip (emit es s) = rclip s"
  "globalUniformsNeedUpdate (emit es s) = globalUniformsNeedUpdate s"
  "currentProgramId (emit es s) = currentProgramId s"
  "transparentBackground (emit es s) = transparentBackground s"
  by (simp_all add: emit_def)


lemma selected_forEach:
  assumes "clipIndependent cond"
  shows "selected cond v (heap (forEachRenderable ext cond' v' as s)) bs = selected cond v (heap s) bs"
  by (induction as arbitrary: s) (simp_all add: selected_renderObject[OF assms])


lemma rstate_forEach:
  "rstate (heap (forEachRenderable ext cond v as s) b) = rstate (heap s b)"
  by (induction as arbitrary: s) (simp_all add: heap_renderObject rstate_synced)

subsection \<open>Uploads of the global uniforms in a pass with one loop\<close>



subsection \<open>\<^verbatim>\<open>renderBlendedTransparent\<close>: two loops in one pass\<close>

lemma renderBlendedTransparent_loops:
  "renderBlendedTransparent ext g cam dt s =
     forEachRenderable ext notDepthWriting ''colorBlended'' (renderables g) (secondStart ext g cam dt s)"
proof -
  have 1: "depthWriting = (\<lambda>r. \<not> opaque (rstate r) \<and> writeDepth (rstate r))"
    and 2: "notDepthWriting = (\<lambda>r. \<not> opaque (rstate r) \<and> \<not> writeDepth (rstate r))"
    by (auto simp: depthWriting_def notDepthWriting_def)
  show ?thesis
    by (simp add: renderBlendedTransparent_def secondStart_def firstSubPass_def
          transparentStart_def passStart_def Let_def 1 2)
qed

lemma clipIndependent_depthWriting:
  "clipIndependent depthWriting" "clipIndependent notDepthWriting"
  by (simp_all add: clipIndependent_def stripClip_def depthWriting_def notDepthWriting_def)

lemma fields_transparentStart:
  "trace (transparentStart ext g cam dt s) = trace s @ blendCommands s @ [DepthMask True]"
  "heap (transparentStart ext g cam dt s) = heap s"
  "rclip (transparentStart ext g cam dt s) = rclip s"
  "globalUniformsNeedUpdate (transparentStart ext g cam dt s) = True"
  "currentProgramId (transparentStart ext g cam dt s) = currentProgramId s"
  by (simp_all add: transparentStart_def fields_emit fields_passStart trace_passStart
        blendCommands_def)


lemma trace_firstSubPass:
  "trace (firstSubPass ext g cam dt s) =
     trace s @ blendCommands s @ [DepthMask True] @
       newEvents (transparentStart ext g cam dt s) (firstSubPass ext g cam dt s)"
  unfolding firstSubPass_def
  by (subst trace_forEach) (simp add: fields_transparentStart)

lemma trace_renderBlendedTransparent:
  "trace (renderBlendedTransparent ext g cam dt s) =
     trace s @ blendCommands s @ [DepthMask True] @
       newEvents (transparentStart ext g cam dt s) (firstSubPass ext g cam dt s) @
       [DepthMask False] @
       newEvents (secondStart ext g cam dt s) (renderBlendedTransparent ext g cam dt s)"
  unfolding renderBlendedTransparent_loops
  by (subst trace_forEach) (simp add: secondStart_def fields_emit trace_firstSubPass)

lemma newEvents_renderBlendedTransparent:
  "newEvents s (renderBlendedTransparent ext g cam dt s) =
     blendCommands s @ [DepthMask True] @
       newEvents (transparentStart ext g cam dt s) (firstSubPass ext g cam dt s) @
       [DepthMask False] @
       newEvents (secondStart ext g cam dt s) (renderBlendedTransparent ext g cam dt s)"
  by (subst newEvents_def) (simp add: trace_renderBlendedTransparent)

lemma draws_blendCommands: "draws (blendCommands s) = []" "uploads (blendCommands s) = []"
  by (simp_all add: blendCommands_def)

lemma draws_firstSubPass:
  "draws (newEvents (transparentStart ext g cam dt s) (firstSubPass ext g cam dt s)) =
     map (\<lambda>a. (a, ''colorBlended'')) (selected depthWriting ''colorBlended'' (heap s) (renderables g))"
  unfolding firstSubPass_def
  by (simp add: draws_forEach[OF clipIndependent_depthWriting(1)] fields_transparentStart)

lemma heap_secondStart:
  "heap (secondStart ext g cam dt s) b =
     (if b \<in> set (selected depthWriting ''colorBlended'' (heap s) (renderables g))
      then synced (rclip s) (heap s b) else heap s b)"
  by (simp add: secondStart_def firstSubPass_def fields_emit
        heap_forEach[OF clipIndependent_depthWriting(1)] fields_transparentStart)


lemma selected_secondStart:
  assumes "clipIndependent cond"
  shows "selected cond v (heap (secondStart ext g cam dt s)) bs = selected cond v (heap s) bs"
  by (simp add: secondStart_def fields_emit firstSubPass_def selected_forEach[OF assms]
        fields_transparentStart)


lemma draws_secondSubPass:
  "draws (newEvents (secondStart ext g cam dt s) (renderBlendedTransparent ext g cam dt s)) =
     map (\<lambda>a. (a, ''colorBlended'')) (selected notDepthWriting ''colorBlended'' (heap s) (renderables g))"
  unfolding renderBlendedTransparent_loops
  by (simp add: draws_forEach[OF clipIndependent_depthWriting(2)]
        selected_secondStart[OF clipIndependent_depthWriting(2)])

lemma draws_renderBlendedTransparent:
  "draws (newEvents s (renderBlendedTransparent ext g cam dt s)) =
     map (\<lambda>a. (a, ''colorBlended'')) (selected depthWriting ''colorBlended'' (heap s) (renderables g)) @
     map (\<lambda>a. (a, ''colorBlended'')) (selected notDepthWriting ''colorBlended'' (heap s) (renderables g))"
  by (simp add: newEvents_renderBlendedTransparent draws_append draws_blendCommands
        draws_firstSubPass draws_secondSubPass)




subsection \<open>The passes with one loop\<close>

lemma renderPick_pass:
  "renderPick ext g cam v dt s =
     forEachRenderable ext (\<lambda>r. \<not> colorOnly (rstate r)) v (renderables g)
       (passStart ext g cam dt False [Disable BLEND, Enable DEPTH_TEST, DepthMask True] s)"
  by (simp add: renderPick_def passStart_def)

lemma renderDepth_pass:
  "renderDepth ext g cam dt s =
     forEachRenderable ext (\<lambda>r. True) ''depth'' (renderables g)
       (passStart ext g cam dt False [Disable BLEND, Enable DEPTH_TEST, DepthMask True] s)"
  by (simp add: renderDepth_def passStart_def)

lemma renderBlendedOpaque_pass:
  "renderBlendedOpaque ext g cam dt s =
     forEachRenderable ext (\<lambda>r. opaque (rstate r)) ''colorBlended'' (renderables g)
       (passStart ext g cam dt False [Disable BLEND, Enable DEPTH_TEST, DepthMask True] s)"
  by (simp add: renderBlendedOpaque_def passStart_def)

lemma renderBlendedVolume_pass:
  "renderBlendedVolume ext g cam dt s =
     forEachRenderable ext (\<lambda>r. True) ''colorBlended'' (renderables g)
       (passStart ext g cam dt False [BlendFunc ONE ONE_MINUS_SRC_ALPHA, Enable BLEND] s)"
  by (simp add: renderBlendedVolume_def passStart_def)

lemmas pass_forms =
  renderPick_pass renderDepth_pass renderBlendedOpaque_pass renderBlendedVolume_pass
  renderWboitOpaque_pass renderWboitTransparent_pass





lemma draws_renderBlendedOpaque:
  "draws (newEvents s (renderBlendedOpaque ext g cam dt s)) =
     map (\<lambda>a. (a, ''colorBlended''))
       (filter (\<lambda>a. opaque (rstate (heap s a)) \<and> visible (rstate (heap s a))) (renderables g))"
  by (simp add: renderBlendedOpaque_pass pass_draws clipIndependent_conds selected_def
        drawable_colorBlended)

lemma heap_renderDepth:
  "heap (renderDepth ext g cam dt s) b =
     (if b \<in> set (renderables g) \<and> visible (rstate (heap s b))
      then synced (rclip s) (heap s b) else heap s b)"
  by (simp add: renderDepth_pass pass_heap clipIndependent_conds selected_def drawable_depth)




subsection \<open>Depth-mask commands inside a loop\<close>


lemma renderMode_synced: "dRenderMode (rvalues (synced c r)) = dRenderMode (rvalues r)"
  by (simp add: synced_def syncClipDefines_def Let_def split: prod.splits if_splits)

lemma newEvents_renderObject:
  "newEvents s (renderObject ext a v s) =
     (if drawable v (heap s a) then
        (if snd (syncClipDefines (rclip s) (heap s a)) then [UpdateRenderable a] else []) @
        (if currentProgramId s \<noteq> programOf ext v s a then [UseProgram (programOf ext v s a)] else []) @
        (if globalUniformsNeedUpdate s \<or> currentProgramId s \<noteq> programOf ext v s a
         then [SetGlobalUniforms (programOf ext v s a)] else []) @
        drawStateEvents (fragDepth s) v (rvalues (synced (rclip s) (heap s a))) @
        [Render a v (sharedTexturesList s)]
      else [])"
  by (auto simp add: renderObject_def newEvents_def emit_def Let_def drawable_def synced_def
        programOf_def split: prod.splits)




lemma selected_filter:
  "selected depthWriting ''colorBlended'' h as =
     filter (\<lambda>a. visible (rstate (h a)) \<and> \<not> opaque (rstate (h a)) \<and> writeDepth (rstate (h a))) as"
  "selected notDepthWriting ''colorBlended'' h as =
     filter (\<lambda>a. visible (rstate (h a)) \<and> \<not> opaque (rstate (h a)) \<and> \<not> writeDepth (rstate (h a))) as"
  by (auto simp: selected_def depthWriting_def notDepthWriting_def drawable_colorBlended
        intro: filter_cong)

subsection \<open>The depth mask at every draw\<close>

lemma maskedDraws_append:
  "maskedDraws m (xs @ ys) = maskedDraws m xs @ maskedDraws (maskAfter m xs) ys"
  by (induction m xs rule: maskedDraws.induct) simp_all

lemma maskAfter_append: "maskAfter m (xs @ ys) = maskAfter (maskAfter m xs) ys"
  by (induction m xs rule: maskAfter.induct) simp_all


lemma maskAfter_plain: "\<not> list_ex isDepthMask xs \<Longrightarrow> maskAfter m xs = m"
  by (induction m xs rule: maskAfter.induct) simp_all

lemma maskedDraws_drawStateEvents: "maskedDraws m (drawStateEvents f v vals) = []"
  by (simp add: drawStateEvents_def split: option.splits)

lemma values_synced:
  "uAlpha (rvalues (synced c r)) = uAlpha (rvalues r)"
  "dDoubleSided (rvalues (synced c r)) = dDoubleSided (rvalues r)"
  "hasReflection (rvalues (synced c r)) = hasReflection (rvalues r)"
  "dFlipSided (rvalues (synced c r)) = dFlipSided (rvalues r)"
  by (simp_all add: synced_def syncClipDefines_def Let_def split: prod.splits if_splits)

lemma drawStateEvents_synced:
  "drawStateEvents f v (rvalues (synced c r)) = drawStateEvents f v (rvalues r)"
  by (simp add: drawStateEvents_def values_synced renderMode_synced cong: option.case_cong)

lemma fragDepth_renderObject: "fragDepth (renderObject ext a v s) = fragDepth s"
  by (auto simp add: renderObject_def emit_def Let_def split: prod.splits)

lemma masks_renderObject:
  "maskedDraws m (newEvents s (renderObject ext a v s)) =
     (if drawable v (heap s a)
      then [(a, maskAfter m (drawStateEvents (fragDepth s) v (rvalues (heap s a))))] else [])"
  "maskAfter m (newEvents s (renderObject ext a v s)) =
     (if drawable v (heap s a)
      then maskAfter m (drawStateEvents (fragDepth s) v (rvalues (heap s a))) else m)"
  by (simp_all add: newEvents_renderObject maskedDraws_append maskAfter_append
        maskedDraws_drawStateEvents drawStateEvents_synced)

lemma masks_forEach_Cons:
  "maskedDraws m (newEvents s (forEachRenderable ext cond v (a # as) s)) =
     (if cond (heap s a) \<and> drawable v (heap s a) then
        (a, maskAfter m (drawStateEvents (fragDepth s) v (rvalues (heap s a)))) #
        maskedDraws (maskAfter m (drawStateEvents (fragDepth s) v (rvalues (heap s a))))
          (newEvents (renderObject ext a v s)
             (forEachRenderable ext cond v as (renderObject ext a v s)))
      else maskedDraws m (newEvents s (forEachRenderable ext cond v as s)))"
proof (cases "cond (heap s a) \<and> drawable v (heap s a)")
  case True
  then show ?thesis
    by (simp add: newEvents_forEach_sel[where cond=cond, OF True] maskedDraws_append
          masks_renderObject del: forEachRenderable.simps)
next
  case False
  then show ?thesis
    by (simp only: forEach_Cons_skip[where cond=cond, OF False] if_False)
qed

lemma masks_forEach_Nil: "maskedDraws m (newEvents s (forEachRenderable ext cond v [] s)) = []"
  by (simp add: newEvents_self)

lemma maskedDraws_blendCommands:
  "maskedDraws m (blendCommands s) = []" "maskAfter m (blendCommands s) = m"
  by (simp_all add: blendCommands_def)

lemma fragDepth_starts:
  "fragDepth (transparentStart ext g cam dt s) = fragDepth s"
  "fragDepth (secondStart ext g cam dt s) = fragDepth s"
proof -
  have f: "fragDepth (forEachRenderable ext cond v as t) = fragDepth t" for cond v as t
    by (induction as arbitrary: t) (simp_all add: fragDepth_renderObject)
  show "fragDepth (transparentStart ext g cam dt s) = fragDepth s"
    by (simp add: transparentStart_def emit_def fields_passStart)
  then show "fragDepth (secondStart ext g cam dt s) = fragDepth s"
    by (simp add: secondStart_def firstSubPass_def emit_def f)
qed

lemma masks_renderBlendedTransparent:
  "maskedDraws m (newEvents s (renderBlendedTransparent ext g cam dt s)) =
     maskedDraws True (newEvents (transparentStart ext g cam dt s) (firstSubPass ext g cam dt s)) @
     maskedDraws False (newEvents (secondStart ext g cam dt s) (renderBlendedTransparent ext g cam dt s))"
  by (simp add: newEvents_renderBlendedTransparent maskedDraws_append maskAfter_append
        maskedDraws_blendCommands)

lemma cx:
  "maskedDraws True
     (newEvents (sampleRenderer [depthWritingVolume, depthWritingObject, transparentObject])
       (renderBlendedTransparent sampleExternals (groupOf [0, 1, 2]) sampleCamera None
          (sampleRenderer [depthWritingVolume, depthWritingObject, transparentObject]))) =
     [(0, False), (1, False), (2, False)]"
  apply (subst masks_renderBlendedTransparent)
  apply (simp only: firstSubPass_def renderBlendedTransparent_loops)
  apply (simp add: masks_forEach_Cons masks_forEach_Nil groupOf_simps fields_transparentStart
       heap_secondStart selected_filter fragDepth_starts heap_renderObject fragDepth_renderObject
       heap_sampleRenderer heapOf_def depthWritingVolume_def volumeObject_def
       depthWritingObject_def transparentObject_def plainObject_def depthWriting_def
       notDepthWriting_def drawable_colorBlended drawStateEvents_def rstate_synced
       del: forEachRenderable.simps)
  done







lemma trace_renderBlendedOpaque:
  "trace (renderBlendedOpaque ext g cam dt s) = trace s @ newEvents s (renderBlendedOpaque ext g cam dt s)"
  by (simp only: renderBlendedOpaque_pass pass_trace)

lemma trace_renderBlendedTransparent':
  "trace (renderBlendedTransparent ext g cam dt s) =
     trace s @ newEvents s (renderBlendedTransparent ext g cam dt s)"
  by (simp add: newEvents_renderBlendedTransparent trace_renderBlendedTransparent)

lemma selected_renderBlendedOpaque:
  assumes "clipIndependent cond"
  shows "selected cond v (heap (renderBlendedOpaque ext g cam dt s)) bs = selected cond v (heap s) bs"
  by (simp add: renderBlendedOpaque_pass selected_forEach[OF assms] fields_passStart)

lemma draws_renderBlendedTransparent_filter:
  "draws (newEvents s (renderBlendedTransparent ext g cam dt s)) =
     map (\<lambda>a. (a, ''colorBlended''))
       (filter (\<lambda>a. visible (rstate (heap s a)) \<and> \<not> opaque (rstate (heap s a))
                    \<and> writeDepth (rstate (heap s a))) (renderables g) @
        filter (\<lambda>a. visible (rstate (heap s a)) \<and> \<not> opaque (rstate (heap s a))
                    \<and> \<not> writeDepth (rstate (heap s a))) (renderables g))"
  by (simp only: draws_renderBlendedTransparent selected_filter map_append)

lemma draws_renderBlendedOpaque_filter:
  "draws (newEvents s (renderBlendedOpaque ext g cam dt s)) =
     map (\<lambda>a. (a, ''colorBlended''))
       (filter (\<lambda>a. visible (rstate (heap s a)) \<and> opaque (rstate (heap s a))) (renderables g))"
  by (simp add: draws_renderBlendedOpaque conj_commute)

lemma draws_transparent_after_opaque:
  "draws (newEvents (renderBlendedOpaque ext g cam dt s) (renderBlended ext g cam dt s)) =
     map (\<lambda>a. (a, ''colorBlended''))
       (filter (\<lambda>a. visible (rstate (heap s a)) \<and> \<not> opaque (rstate (heap s a))
                    \<and> writeDepth (rstate (heap s a))) (renderables g) @
        filter (\<lambda>a. visible (rstate (heap s a)) \<and> \<not> opaque (rstate (heap s a))
                    \<and> \<not> writeDepth (rstate (heap s a))) (renderables g))"
  unfolding renderBlended_def
  by (simp only: draws_renderBlendedTransparent map_append
        selected_renderBlendedOpaque[OF clipIndependent_depthWriting(1)]
        selected_renderBlendedOpaque[OF clipIndependent_depthWriting(2)] selected_filter)

text \<open>
  Claim C9. \<^verbatim>\<open>renderBlendedOpaque\<close> draws exactly the visible objects of the group whose
  \<^verbatim>\<open>opaque\<close> flag is set, \<^verbatim>\<open>renderBlendedTransparent\<close> exactly the visible objects
  whose flag is not set (those that write depth first). In \<^verbatim>\<open>renderBlended\<close> the
  transparent phase reads the flags as they were before the opaque phase, the commands of
  the two phases follow each other, no object is drawn in both phases and every visible
  object of the group is drawn in one of them.
\<close>

theorem renderBlended_partition:
  "draws (newEvents s (renderBlendedOpaque ext g cam dt s)) =
     map (\<lambda>a. (a, ''colorBlended''))
       (filter (\<lambda>a. visible (rstate (heap s a)) \<and> opaque (rstate (heap s a))) (renderables g))
   \<and> draws (newEvents s (renderBlendedTransparent ext g cam dt s)) =
     map (\<lambda>a. (a, ''colorBlended''))
       (filter (\<lambda>a. visible (rstate (heap s a)) \<and> \<not> opaque (rstate (heap s a))
                    \<and> writeDepth (rstate (heap s a))) (renderables g) @
        filter (\<lambda>a. visible (rstate (heap s a)) \<and> \<not> opaque (rstate (heap s a))
                    \<and> \<not> writeDepth (rstate (heap s a))) (renderables g))
   \<and> trace (renderBlended ext g cam dt s) =
       trace s @ newEvents s (renderBlendedOpaque ext g cam dt s) @
         newEvents (renderBlendedOpaque ext g cam dt s) (renderBlended ext g cam dt s)
   \<and> draws (newEvents (renderBlendedOpaque ext g cam dt s) (renderBlended ext g cam dt s)) =
     map (\<lambda>a. (a, ''colorBlended''))
       (filter (\<lambda>a. visible (rstate (heap s a)) \<and> \<not> opaque (rstate (heap s a))
                    \<and> writeDepth (rstate (heap s a))) (renderables g) @
        filter (\<lambda>a. visible (rstate (heap s a)) \<and> \<not> opaque (rstate (heap s a))
                    \<and> \<not> writeDepth (rstate (heap s a))) (renderables g))
   \<and> set (draws (newEvents s (renderBlendedOpaque ext g cam dt s))) \<inter>
       set (draws (newEvents (renderBlendedOpaque ext g cam dt s) (renderBlended ext g cam dt s))) = {}
   \<and> set (draws (newEvents s (renderBlendedOpaque ext g cam dt s))) \<union>
       set (draws (newEvents (renderBlendedOpaque ext g cam dt s) (renderBlended ext g cam dt s))) =
       (\<lambda>a. (a, ''colorBlended'')) ` {a \<in> set (renderables g). visible (rstate (heap s a))}"
proof -
  have t: "trace (renderBlended ext g cam dt s) =
       trace s @ newEvents s (renderBlendedOpaque ext g cam dt s) @
         newEvents (renderBlendedOpaque ext g cam dt s) (renderBlended ext g cam dt s)"
    unfolding renderBlended_def
    using trace_renderBlendedOpaque[of ext g cam dt s]
      trace_renderBlendedTransparent'[of ext g cam dt "renderBlendedOpaque ext g cam dt s"]
    by simp
  show ?thesis
    unfolding draws_renderBlendedOpaque_filter draws_renderBlendedTransparent_filter
      draws_transparent_after_opaque
    using t by auto
qed

text \<open>An opaque mesh, an object with alpha 0.5, a hidden object and an object with alpha
  0.5 that writes depth: the opaque phase draws the first, the transparent phase the last
  and then the second.\<close>

theorem renderBlended_partition_witness:
  "draws (newEvents (sampleRenderer [plainObject, transparentObject, hiddenObject, depthWritingObject])
       (renderBlendedOpaque sampleExternals (groupOf [0, 1, 2, 3]) sampleCamera None
          (sampleRenderer [plainObject, transparentObject, hiddenObject, depthWritingObject]))) =
     [(0, ''colorBlended'')]
   \<and> draws (newEvents
       (renderBlendedOpaque sampleExternals (groupOf [0, 1, 2, 3]) sampleCamera None
          (sampleRenderer [plainObject, transparentObject, hiddenObject, depthWritingObject]))
       (renderBlended sampleExternals (groupOf [0, 1, 2, 3]) sampleCamera None
          (sampleRenderer [plainObject, transparentObject, hiddenObject, depthWritingObject]))) =
     [(3, ''colorBlended''), (1, ''colorBlended'')]"
  using renderBlended_partition[of "sampleRenderer [plainObject, transparentObject, hiddenObject, depthWritingObject]"
      sampleExternals "groupOf [0, 1, 2, 3]" sampleCamera None]
  by (simp add: heap_sampleRenderer groupOf_simps heapOf_def
        transparentObject_def depthWritingObject_def plainObject_def hiddenObject_def)

subsection \<open>Commands of the draw pass and commands of the renderer\<close>

lemma filter_drawStateEvents: "filter drawPassEvent (drawStateEvents f v vals) = []"
  by (simp add: drawStateEvents_def split: option.splits)

lemma filter_renderObject: "filter drawPassEvent (newEvents s (renderObject ext a v s)) = []"
  by (simp add: newEvents_renderObject filter_drawStateEvents)

lemma filter_forEach: "filter drawPassEvent (newEvents s (forEachRenderable ext cond v as s)) = []"
proof (induction as arbitrary: s)
  case Nil
  show ?case by (simp add: newEvents_self)
next
  case (Cons a as)
  show ?case
  proof (cases "cond (heap s a) \<and> drawable v (heap s a)")
    case True
    show ?thesis
      by (simp add: newEvents_forEach_sel[where cond=cond, OF True] filter_renderObject Cons.IH
            del: forEachRenderable.simps)
  next
    case False
    show ?thesis
      by (simp only: forEach_Cons_skip[where cond=cond, OF False] Cons.IH)
  qed
qed

lemma filter_pass:
  "filter drawPassEvent es = [] \<Longrightarrow>
     filter drawPassEvent
       (newEvents s (forEachRenderable ext cond v as (passStart ext g cam dt w es s))) = []"
  by (simp add: pass_newEvents newEvents_passStart filter_forEach)

lemma filter_renderBlendedOpaque:
  "filter drawPassEvent (newEvents s (renderBlendedOpaque ext g cam dt s)) = []"
  by (simp add: renderBlendedOpaque_pass filter_pass)

lemma filter_renderBlendedTransparent:
  "filter drawPassEvent (newEvents s (renderBlendedTransparent ext g cam dt s)) = []"
proof -
  have "filter drawPassEvent (newEvents (transparentStart ext g cam dt s) (firstSubPass ext g cam dt s)) = []"
    unfolding firstSubPass_def by (rule filter_forEach)
  moreover have "filter drawPassEvent
      (newEvents (secondStart ext g cam dt s) (renderBlendedTransparent ext g cam dt s)) = []"
    unfolding renderBlendedTransparent_loops by (rule filter_forEach)
  ultimately show ?thesis
    by (simp add: newEvents_renderBlendedTransparent blendCommands_def)
qed

lemma clear_fields:
  "trace (clear b s) = trace s @ newEvents s (clear b s)"
  "draws (newEvents s (clear b s)) = []"
  "filter drawPassEvent (newEvents s (clear b s)) = []"
  "heap (clear b s) = heap s"
  by (simp_all add: clear_def newEvents_def emit_def Let_def)

lemma trace_renderBlended:
  "trace (renderBlended ext g cam dt s) =
       trace s @ newEvents s (renderBlendedOpaque ext g cam dt s) @
         newEvents (renderBlendedOpaque ext g cam dt s) (renderBlended ext g cam dt s)"
  unfolding renderBlended_def
  using trace_renderBlendedOpaque[of ext g cam dt s]
    trace_renderBlendedTransparent'[of ext g cam dt "renderBlendedOpaque ext g cam dt s"]
  by simp

lemma toDrawingBuffer_states:
  "DrawPass_renderBlended ext dp cam sc True s =
     renderBlended ext (primitives sc) cam None (clear True (emit [UnbindFramebuffer] s))"
  by (simp add: DrawPass_renderBlended_def renderBlended_def Let_def split: option.splits)

lemma toDrawingBuffer_trace:
  "trace (DrawPass_renderBlended ext dp cam sc True s) =
     trace s @ [UnbindFramebuffer] @
       newEvents (emit [UnbindFramebuffer] s) (clear True (emit [UnbindFramebuffer] s)) @
       newEvents (clear True (emit [UnbindFramebuffer] s))
         (renderBlendedOpaque ext (primitives sc) cam None (clear True (emit [UnbindFramebuffer] s))) @
       newEvents (renderBlendedOpaque ext (primitives sc) cam None (clear True (emit [UnbindFramebuffer] s)))
         (renderBlended ext (primitives sc) cam None (clear True (emit [UnbindFramebuffer] s)))"
  unfolding toDrawingBuffer_states
  by (subst trace_renderBlended)
     (simp add: clear_fields(1)[of True "emit [UnbindFramebuffer] s"] fields_emit)

lemma toDrawingBuffer_newEvents:
  "newEvents s (DrawPass_renderBlended ext dp cam sc True s) =
     [UnbindFramebuffer] @
       newEvents (emit [UnbindFramebuffer] s) (clear True (emit [UnbindFramebuffer] s)) @
       newEvents (clear True (emit [UnbindFramebuffer] s))
         (renderBlendedOpaque ext (primitives sc) cam None (clear True (emit [UnbindFramebuffer] s))) @
       newEvents (renderBlendedOpaque ext (primitives sc) cam None (clear True (emit [UnbindFramebuffer] s)))
         (renderBlended ext (primitives sc) cam None (clear True (emit [UnbindFramebuffer] s)))"
  by (subst newEvents_def) (simp add: toDrawingBuffer_trace)

text \<open>
  Claim C10. When \<^verbatim>\<open>_renderBlended\<close> renders to the drawing buffer it unbinds the
  framebuffer, clears, and runs \<^verbatim>\<open>renderBlendedOpaque\<close> and then
  \<^verbatim>\<open>renderBlendedTransparent\<close> on the primitives, and nothing else: every draw has the
  variant \<^verbatim>\<open>colorBlended\<close> (none is a depth draw) and is a draw of a visible primitive,
  opaque ones first; of the commands that a draw pass issues itself (binding a target,
  attaching a depth texture, the depth merge) only the unbinding of the framebuffer occurs.
\<close>

theorem renderBlended_toDrawingBuffer:
  "DrawPass_renderBlended ext dp cam sc True s =
     renderBlendedTransparent ext (primitives sc) cam None
       (renderBlendedOpaque ext (primitives sc) cam None (clear True (emit [UnbindFramebuffer] s)))
   \<and> trace (DrawPass_renderBlended ext dp cam sc True s) =
       trace s @ newEvents s (DrawPass_renderBlended ext dp cam sc True s)
   \<and> draws (newEvents s (DrawPass_renderBlended ext dp cam sc True s)) =
     map (\<lambda>a. (a, ''colorBlended''))
       (filter (\<lambda>a. visible (rstate (heap s a)) \<and> opaque (rstate (heap s a)))
          (renderables (primitives sc)) @
        filter (\<lambda>a. visible (rstate (heap s a)) \<and> \<not> opaque (rstate (heap s a))
                    \<and> writeDepth (rstate (heap s a))) (renderables (primitives sc)) @
        filter (\<lambda>a. visible (rstate (heap s a)) \<and> \<not> opaque (rstate (heap s a))
                    \<and> \<not> writeDepth (rstate (heap s a))) (renderables (primitives sc)))
   \<and> filter drawPassEvent (newEvents s (DrawPass_renderBlended ext dp cam sc True s)) =
       [UnbindFramebuffer]"
proof -
  let ?s2 = "clear True (emit [UnbindFramebuffer] s)"
  have f: "filter drawPassEvent
      (newEvents (renderBlendedOpaque ext (primitives sc) cam None ?s2)
         (renderBlended ext (primitives sc) cam None ?s2)) = []"
    unfolding renderBlended_def by (rule filter_renderBlendedTransparent)
  show ?thesis
    by (simp add: toDrawingBuffer_newEvents toDrawingBuffer_trace draws_append
          clear_fields filter_renderBlendedOpaque f draws_renderBlendedOpaque_filter
          draws_transparent_after_opaque fields_emit)
       (simp add: toDrawingBuffer_states renderBlended_def)
qed

text \<open>A scene with an opaque mesh and an object with alpha 0.5 as primitives and a direct
  volume: rendering to the drawing buffer draws the two primitives.\<close>

theorem renderBlended_toDrawingBuffer_witness:
  "draws (newEvents (sampleRenderer [plainObject, transparentObject, volumeObject])
       (DrawPass_renderBlended sampleExternals (DrawPass_new sampleContext 7 8 640 480 False)
          sampleCamera (sceneOf [0, 1] [2]) True
          (sampleRenderer [plainObject, transparentObject, volumeObject]))) =
     [(0, ''colorBlended''), (1, ''colorBlended'')]"
  using conjunct1[OF conjunct2[OF conjunct2[OF
      renderBlended_toDrawingBuffer[of sampleExternals "DrawPass_new sampleContext 7 8 640 480 False"
      sampleCamera "sceneOf [0, 1] [2]" "sampleRenderer [plainObject, transparentObject, volumeObject]"]]]]
  by (simp add: heap_sampleRenderer groupOf_simps heapOf_def sceneOf_def
        transparentObject_def plainObject_def)

subsection \<open>The error of the draw pass\<close>

lemma renderWboit_throws:
  "\<not> wboitEnabled dp \<Longrightarrow>
     DrawPass_renderWboit ext dp cam sc toDrawingBuffer s = Inl (Error ''expected wboit to be enabled'')"
  by (simp add: DrawPass_renderWboit_def wboitEnabled_def split: option.splits)

lemma renderWboit_returns:
  "wboitEnabled dp \<Longrightarrow> \<not> isl (DrawPass_renderWboit ext dp cam sc toDrawingBuffer s)"
  by (auto simp add: DrawPass_renderWboit_def wboitEnabled_def Let_def split: option.splits)

lemma render1_returns: "\<not> isl (DrawPass_render1 ext dp cam sc hp toDrawingBuffer s)"
proof (cases "wboitEnabled dp")
  case True
  let ?s1 = "update ext cam (setViewport (vx (cviewport cam)) (vy (cviewport cam))
               (vwidth (cviewport cam)) (vheight (cviewport cam)) s)"
  from renderWboit_returns[OF True, of ext cam sc toDrawingBuffer ?s1]
  obtain s2 where "DrawPass_renderWboit ext dp cam sc toDrawingBuffer ?s1 = Inr s2"
    by (cases "DrawPass_renderWboit ext dp cam sc toDrawingBuffer ?s1") auto
  with True show ?thesis
    by (simp add: DrawPass_render1_def Let_def)
next
  case False
  then show ?thesis
    by (simp add: DrawPass_render1_def Let_def)
qed

lemma render_returns: "\<not> isl (DrawPass_render ext dp cam sc hp toDrawingBuffer transparentBg s)"
proof (cases cam)
  case (Mono c)
  then show ?thesis
    by (simp add: DrawPass_render_def Let_def render1_returns)
next
  case (Stereo l r)
  let ?s1 = "setDrawingBufferSize (getWidth dp (colorTarget dp)) (getHeight dp (colorTarget dp))
                 (setTransparentBackground transparentBg s)"
  obtain hp1 s2 where "DrawPass_render1 ext dp l sc hp toDrawingBuffer ?s1 = Inr (hp1, s2)"
    using render1_returns[of ext dp l sc hp toDrawingBuffer ?s1]
    by (cases "DrawPass_render1 ext dp l sc hp toDrawingBuffer ?s1") auto
  with Stereo show ?thesis
    by (simp add: DrawPass_render_def Let_def render1_returns)
qed

lemma wboitEnabled_new:
  "wboitEnabled (DrawPass_new ctx mergeProg wboitProg w h enableWboit) =
     (enableWboit \<and> wboitSupported ctx)"
  by (simp add: wboitEnabled_def DrawPass_new_def Let_def)

lemma wboitEnabled_setSize: "wboitEnabled (DrawPass_setSize w h dp) = wboitEnabled dp"
  by (simp add: wboitEnabled_def DrawPass_setSize_def Let_def RenderTarget_setSize_def
        Texture_define_def split: option.splits)

text \<open>
  Claim C8. \<^verbatim>\<open>_renderWboit\<close> throws exactly when the order-independent pass is absent
  or not enabled, and then it throws \<^verbatim>\<open>'expected wboit to be enabled'\<close> before any
  command; a draw pass constructed without the order-independent pass is in this case, and
  stays in it when resized. \<^verbatim>\<open>_render\<close> and \<^verbatim>\<open>render\<close> never throw: they take the
  order-independent path only when \<^verbatim>\<open>wboitEnabled\<close> holds.
\<close>

theorem renderWboit_error:
  "(isl (DrawPass_renderWboit ext dp cam sc toDrawingBuffer s) \<longleftrightarrow> \<not> wboitEnabled dp)
   \<and> (\<not> wboitEnabled dp \<longrightarrow>
        DrawPass_renderWboit ext dp cam sc toDrawingBuffer s =
          Inl (Error ''expected wboit to be enabled''))
   \<and> \<not> wboitEnabled (DrawPass_new ctx mergeProg wboitProg w h False)
   \<and> wboitEnabled (DrawPass_setSize w' h' dp) = wboitEnabled dp
   \<and> \<not> isl (DrawPass_render1 ext dp c sc hp toDrawingBuffer s)
   \<and> \<not> isl (DrawPass_render ext dp cam' sc hp toDrawingBuffer transparentBg s)"
  using renderWboit_throws[of dp ext cam sc toDrawingBuffer s]
    renderWboit_returns[of dp ext cam sc toDrawingBuffer s]
  by (auto simp: render1_returns render_returns wboitEnabled_new wboitEnabled_setSize)

text \<open>A draw pass constructed without the order-independent pass: \<^verbatim>\<open>_renderWboit\<close>
  throws, \<^verbatim>\<open>render\<close> returns; one constructed with it on a device that supports it:
  \<^verbatim>\<open>_renderWboit\<close> returns.\<close>

theorem renderWboit_error_witness:
  "DrawPass_renderWboit sampleExternals (DrawPass_new sampleContext 7 8 640 480 False)
       sampleCamera (sceneOf [0] [1]) False (sampleRenderer [plainObject, volumeObject]) =
     Inl (Error ''expected wboit to be enabled'')
   \<and> \<not> isl (DrawPass_render sampleExternals (DrawPass_new sampleContext 7 8 640 480 False)
       (Stereo sampleCamera sampleCamera) (sceneOf [0] [1]) sampleHelper False False
       (sampleRenderer [plainObject, volumeObject]))"
  using renderWboit_error[of sampleExternals "DrawPass_new sampleContext 7 8 640 480 False"
      sampleCamera "sceneOf [0] [1]" False "sampleRenderer [plainObject, volumeObject]"
      sampleContext 7 8 640 480 640 480 sampleCamera sampleHelper "Stereo sampleCamera sampleCamera" False]
  by simp

subsection \<open>Resizing the draw pass\<close>

lemma sizesAgree_new: "sizesAgree (DrawPass_new ctx mergeProg wboitProg w h enableWboit)"
  by (simp add: sizesAgree_def DrawPass_new_def Let_def)

lemma setSize_same:
  "getWidth dp (colorTarget dp) = w \<Longrightarrow> getHeight dp (colorTarget dp) = h \<Longrightarrow>
     DrawPass_setSize w h dp = dp"
  by (simp add: DrawPass_setSize_def Let_def)

lemma setSize_changed_form:
  assumes "sizesAgree dp" and "w \<noteq> getWidth dp (colorTarget dp) \<or> h \<noteq> getHeight dp (colorTarget dp)"
  shows "DrawPass_setSize w h dp =
           dp\<lparr> textureSize := (textureSize dp)
                  (targetTexture (colorTarget dp) := (w, h),
                   targetTexture (depthTarget dp) := (w, h),
                   depthTexturePrimitives dp := (w, h),
                   depthTextureVolumes dp := (w, h)),
               depthMerge := (depthMerge dp)
                  \<lparr> uTexSize := \<lparr> cellValue = UVec [w, h],
                                 cellVersion = Suc (cellVersion (uTexSize (depthMerge dp))) \<rparr> \<rparr>,
               wboit := (case wboit dp of
                           Some wb \<Rightarrow> Some (if enabled wb then wb\<lparr> wboitWidth := w, wboitHeight := h \<rparr> else wb)
                         | None \<Rightarrow> None) \<rparr>"
proof -
  have c: "(if w \<noteq> getWidth dp (colorTarget dp) \<or> h \<noteq> getHeight dp (colorTarget dp) then x else y) = x"
    for x y :: drawPass
    using assms(2) by (rule if_P)
  show ?thesis
  proof (cases "packedDepth dp")
    case True
    with assms(1) have "depthTargetPrimitives dp = Some \<lparr> framebuffer = 3, targetTexture = depthTexturePrimitives dp \<rparr>"
      and "depthTargetVolumes dp = Some \<lparr> framebuffer = 4, targetTexture = depthTextureVolumes dp \<rparr>"
      by (simp_all add: sizesAgree_def)
    then show ?thesis
      unfolding DrawPass_setSize_def Let_def c
      by (cases "wboit dp") (simp_all add: RenderTarget_setSize_def Texture_define_def)
  next
    case False
    with assms(1) have "depthTargetPrimitives dp = None" and "depthTargetVolumes dp = None"
      by (simp_all add: sizesAgree_def)
    then show ?thesis
      unfolding DrawPass_setSize_def Let_def c
      by (cases "wboit dp") (simp_all add: RenderTarget_setSize_def Texture_define_def)
  qed
qed

lemma setSize_changed:
  assumes "sizesAgree dp" and "w \<noteq> getWidth dp (colorTarget dp) \<or> h \<noteq> getHeight dp (colorTarget dp)"
  shows "textureSize (DrawPass_setSize w h dp) (targetTexture (colorTarget dp)) = (w, h)"
    and "textureSize (DrawPass_setSize w h dp) (targetTexture (depthTarget dp)) = (w, h)"
    and "textureSize (DrawPass_setSize w h dp) (depthTexturePrimitives dp) = (w, h)"
    and "textureSize (DrawPass_setSize w h dp) (depthTextureVolumes dp) = (w, h)"
    and "colorTarget (DrawPass_setSize w h dp) = colorTarget dp"
    and "depthTarget (DrawPass_setSize w h dp) = depthTarget dp"
    and "depthTexturePrimitives (DrawPass_setSize w h dp) = depthTexturePrimitives dp"
    and "depthTextureVolumes (DrawPass_setSize w h dp) = depthTextureVolumes dp"
    and "depthTargetPrimitives (DrawPass_setSize w h dp) = depthTargetPrimitives dp"
    and "depthTargetVolumes (DrawPass_setSize w h dp) = depthTargetVolumes dp"
    and "packedDepth (DrawPass_setSize w h dp) = packedDepth dp"
proof -
  note f = setSize_changed_form[OF assms]
  show "textureSize (DrawPass_setSize w h dp) (targetTexture (colorTarget dp)) = (w, h)"
    and "textureSize (DrawPass_setSize w h dp) (targetTexture (depthTarget dp)) = (w, h)"
    and "textureSize (DrawPass_setSize w h dp) (depthTexturePrimitives dp) = (w, h)"
    and "textureSize (DrawPass_setSize w h dp) (depthTextureVolumes dp) = (w, h)"
    and "colorTarget (DrawPass_setSize w h dp) = colorTarget dp"
    and "depthTarget (DrawPass_setSize w h dp) = depthTarget dp"
    and "depthTexturePrimitives (DrawPass_setSize w h dp) = depthTexturePrimitives dp"
    and "depthTextureVolumes (DrawPass_setSize w h dp) = depthTextureVolumes dp"
    and "depthTargetPrimitives (DrawPass_setSize w h dp) = depthTargetPrimitives dp"
    and "depthTargetVolumes (DrawPass_setSize w h dp) = depthTargetVolumes dp"
    and "packedDepth (DrawPass_setSize w h dp) = packedDepth dp"
    unfolding f by simp_all
qed

lemma sizesAgree_setSize:
  assumes "sizesAgree dp"
  shows "sizesAgree (DrawPass_setSize w h dp)"
proof (cases "w \<noteq> getWidth dp (colorTarget dp) \<or> h \<noteq> getHeight dp (colorTarget dp)")
  case True
  show ?thesis
    using assms unfolding sizesAgree_def[of "DrawPass_setSize w h dp"]
    by (simp add: setSize_changed[OF assms True]) (simp add: sizesAgree_def)
next
  case False
  then show ?thesis using assms by (simp add: setSize_same)
qed

lemma sizesAgree_resized: "sizesAgree dp \<Longrightarrow> sizesAgree (resized sizes dp)"
  by (induction sizes dp rule: resized.induct) (simp_all add: sizesAgree_setSize)

lemma setSize_sizes:
  assumes "sizesAgree dp"
  shows "textureSize (DrawPass_setSize w h dp) (targetTexture (colorTarget (DrawPass_setSize w h dp))) = (w, h)"
proof (cases "w \<noteq> getWidth dp (colorTarget dp) \<or> h \<noteq> getHeight dp (colorTarget dp)")
  case True
  show ?thesis by (simp add: setSize_changed[OF assms True])
next
  case False
  then show ?thesis
    by (simp add: setSize_same) (simp add: getWidth_def getHeight_def prod_eq_iff)
qed

lemma setSize_all_sizes:
  assumes "sizesAgree dp"
  shows "textureSize (DrawPass_setSize w h dp) (targetTexture (colorTarget (DrawPass_setSize w h dp))) = (w, h)"
    and "textureSize (DrawPass_setSize w h dp) (targetTexture (depthTarget (DrawPass_setSize w h dp))) = (w, h)"
    and "textureSize (DrawPass_setSize w h dp) (depthTexturePrimitives (DrawPass_setSize w h dp)) = (w, h)"
    and "textureSize (DrawPass_setSize w h dp) (depthTextureVolumes (DrawPass_setSize w h dp)) = (w, h)"
proof -
  have c: "textureSize (DrawPass_setSize w h dp) (targetTexture (colorTarget (DrawPass_setSize w h dp))) = (w, h)"
  proof (cases "w \<noteq> getWidth dp (colorTarget dp) \<or> h \<noteq> getHeight dp (colorTarget dp)")
    case True
    show ?thesis by (simp add: setSize_changed[OF assms True])
  next
    case False
    then show ?thesis
      by (simp add: setSize_same) (simp add: getWidth_def getHeight_def prod_eq_iff)
  qed
  have a: "sizesAgree (DrawPass_setSize w h dp)"
    by (rule sizesAgree_setSize[OF assms])
  show "textureSize (DrawPass_setSize w h dp) (targetTexture (colorTarget (DrawPass_setSize w h dp))) = (w, h)"
    by (rule c)
  show "textureSize (DrawPass_setSize w h dp) (targetTexture (depthTarget (DrawPass_setSize w h dp))) = (w, h)"
    and "textureSize (DrawPass_setSize w h dp) (depthTexturePrimitives (DrawPass_setSize w h dp)) = (w, h)"
    and "textureSize (DrawPass_setSize w h dp) (depthTextureVolumes (DrawPass_setSize w h dp)) = (w, h)"
    using a c by (simp_all add: sizesAgree_def)
qed

lemma packed_targets:
  assumes "sizesAgree dp" and "packedDepth dp"
  shows "depthTargetPrimitives dp = Some \<lparr> framebuffer = 3, targetTexture = depthTexturePrimitives dp \<rparr>"
    and "depthTargetVolumes dp = Some \<lparr> framebuffer = 4, targetTexture = depthTextureVolumes dp \<rparr>"
  using assms by (simp_all add: sizesAgree_def)

text \<open>
  Claim C6. For a draw pass as its constructor made it and any calls of \<^verbatim>\<open>setSize\<close>
  left it: after \<^verbatim>\<open>setSize(w, h)\<close> the color target and the depth target report the size
  \<open>(w, h)\<close>; when depth is packed, both intermediate depth targets exist and report
  \<open>(w, h)\<close>; the depth textures for primitives and volumes have the size \<open>(w, h)\<close> in
  either case. When \<open>(w, h)\<close> is already the size of the color target, \<^verbatim>\<open>setSize\<close>
  returns the draw pass unchanged, so a second call with the same size changes nothing.
\<close>

theorem setSize_dimensions:
  assumes "dp = resized sizes (DrawPass_new ctx mergeProg wboitProg w0 h0 enableWboit)"
    and "dp' = DrawPass_setSize w h dp"
  shows "getWidth dp' (colorTarget dp') = w \<and> getHeight dp' (colorTarget dp') = h
       \<and> getWidth dp' (depthTarget dp') = w \<and> getHeight dp' (depthTarget dp') = h
       \<and> (packedDepth dp' \<longrightarrow>
            (\<exists>t1 t2. depthTargetPrimitives dp' = Some t1 \<and> depthTargetVolumes dp' = Some t2
               \<and> getWidth dp' t1 = w \<and> getHeight dp' t1 = h
               \<and> getWidth dp' t2 = w \<and> getHeight dp' t2 = h))
       \<and> textureSize dp' (depthTexturePrimitives dp') = (w, h)
       \<and> textureSize dp' (depthTextureVolumes dp') = (w, h)
       \<and> (getWidth dp (colorTarget dp) = w \<and> getHeight dp (colorTarget dp) = h \<longrightarrow> dp' = dp)
       \<and> DrawPass_setSize w h dp' = dp'"
proof -
  have a: "sizesAgree dp"
    unfolding assms(1) by (rule sizesAgree_resized[OF sizesAgree_new])
  have a': "sizesAgree dp'"
    unfolding assms(2) by (rule sizesAgree_setSize[OF a])
  note s = setSize_all_sizes[OF a, of w h, folded assms(2)]
  have p: "\<exists>t1 t2. depthTargetPrimitives dp' = Some t1 \<and> depthTargetVolumes dp' = Some t2
               \<and> getWidth dp' t1 = w \<and> getHeight dp' t1 = h
               \<and> getWidth dp' t2 = w \<and> getHeight dp' t2 = h" if "packedDepth dp'"
    using packed_targets[OF a' that] s by (simp add: getWidth_def getHeight_def)
  have i: "DrawPass_setSize w h dp' = dp'"
    by (rule setSize_same) (simp_all add: getWidth_def getHeight_def s)
  have u: "dp' = dp" if "getWidth dp (colorTarget dp) = w \<and> getHeight dp (colorTarget dp) = h"
    unfolding assms(2) using that by (simp add: setSize_same)
  show ?thesis
    using p i u by (simp add: getWidth_def getHeight_def s)
qed

lemma packedDepth_setSize: "packedDepth (DrawPass_setSize w h dp) = packedDepth dp"
  by (simp add: DrawPass_setSize_def Let_def RenderTarget_setSize_def Texture_define_def
        split: option.splits)

text \<open>On a device without depth textures: a pass of 640 by 480, resized to 800 by 600 and
  then to 1024 by 768, packs depth, and its color target, its depth target and both
  intermediate depth targets report 1024 by 768; resizing it to 800 by 600 a second time
  instead changes nothing.\<close>

theorem setSize_dimensions_witness:
  "getWidth (DrawPass_setSize 1024 768
       (resized [(800, 600)] (DrawPass_new (sampleContext\<lparr> ext_depthTexture := False \<rparr>) 7 8 640 480 True)))
     (colorTarget (DrawPass_setSize 1024 768
       (resized [(800, 600)] (DrawPass_new (sampleContext\<lparr> ext_depthTexture := False \<rparr>) 7 8 640 480 True)))) = 1024
   \<and> getHeight (DrawPass_setSize 1024 768
       (resized [(800, 600)] (DrawPass_new (sampleContext\<lparr> ext_depthTexture := False \<rparr>) 7 8 640 480 True)))
     (depthTarget (DrawPass_setSize 1024 768
       (resized [(800, 600)] (DrawPass_new (sampleContext\<lparr> ext_depthTexture := False \<rparr>) 7 8 640 480 True)))) = 768
   \<and> packedDepth (DrawPass_setSize 1024 768
       (resized [(800, 600)] (DrawPass_new (sampleContext\<lparr> ext_depthTexture := False \<rparr>) 7 8 640 480 True)))
   \<and> (\<exists>t1 t2.
        depthTargetPrimitives (DrawPass_setSize 1024 768
          (resized [(800, 600)] (DrawPass_new (sampleContext\<lparr> ext_depthTexture := False \<rparr>) 7 8 640 480 True))) = Some t1
        \<and> depthTargetVolumes (DrawPass_setSize 1024 768
          (resized [(800, 600)] (DrawPass_new (sampleContext\<lparr> ext_depthTexture := False \<rparr>) 7 8 640 480 True))) = Some t2
        \<and> getWidth (DrawPass_setSize 1024 768
          (resized [(800, 600)] (DrawPass_new (sampleContext\<lparr> ext_depthTexture := False \<rparr>) 7 8 640 480 True))) t1 = 1024
        \<and> getHeight (DrawPass_setSize 1024 768
          (resized [(800, 600)] (DrawPass_new (sampleContext\<lparr> ext_depthTexture := False \<rparr>) 7 8 640 480 True))) t1 = 768
        \<and> getWidth (DrawPass_setSize 1024 768
          (resized [(800, 600)] (DrawPass_new (sampleContext\<lparr> ext_depthTexture := False \<rparr>) 7 8 640 480 True))) t2 = 1024
        \<and> getHeight (DrawPass_setSize 1024 768
          (resized [(800, 600)] (DrawPass_new (sampleContext\<lparr> ext_depthTexture := False \<rparr>) 7 8 640 480 True))) t2 = 768)
   \<and> DrawPass_setSize 800 600
       (resized [(800, 600)] (DrawPass_new (sampleContext\<lparr> ext_depthTexture := False \<rparr>) 7 8 640 480 True)) =
     resized [(800, 600)] (DrawPass_new (sampleContext\<lparr> ext_depthTexture := False \<rparr>) 7 8 640 480 True)"
proof -
  let ?dp = "resized [(800, 600)] (DrawPass_new (sampleContext\<lparr> ext_depthTexture := False \<rparr>) 7 8 640 480 True)"
  have pk: "packedDepth (DrawPass_setSize 1024 768 ?dp)"
    by (simp add: packedDepth_setSize) (simp add: DrawPass_new_def sampleContext_def)
  note 1 = setSize_dimensions[OF refl refl, of 1024 768 "[(800, 600)]"
      "sampleContext\<lparr> ext_depthTexture := False \<rparr>" 7 8 640 480 True]
  note 2 = setSize_dimensions[OF refl refl, of 800 600 "[]"
      "sampleContext\<lparr> ext_depthTexture := False \<rparr>" 7 8 640 480 True]
  have 3: "DrawPass_setSize 800 600 ?dp = ?dp"
    using 2 by simp
  from 1 3 pk show ?thesis by blast
qed

subsection \<open>Configuring the renderer\<close>

lemma props_steps:
  "props (setBackgroundColor ext pp s) =
     (props s)\<lparr> backgroundColor := (case backgroundColor' pp of Some x \<Rightarrow> x | None \<Rightarrow> backgroundColor (props s)) \<rparr>"
  "props (setPickingAlphaThreshold pp s) =
     (props s)\<lparr> pickingAlphaThreshold := (case pickingAlphaThreshold' pp of Some x \<Rightarrow> x | None \<Rightarrow> pickingAlphaThreshold (props s)) \<rparr>"
  "props (setInteriorDarkening pp s) =
     (props s)\<lparr> interiorDarkening := (case interiorDarkening' pp of Some x \<Rightarrow> x | None \<Rightarrow> interiorDarkening (props s)) \<rparr>"
  "props (setInteriorColorFlag pp s) =
     (props s)\<lparr> interiorColorFlag := (case interiorColorFlag' pp of Some x \<Rightarrow> x | None \<Rightarrow> interiorColorFlag (props s)) \<rparr>"
  "props (setInteriorColor ext pp s) =
     (props s)\<lparr> interiorColor := (case interiorColor' pp of Some x \<Rightarrow> x | None \<Rightarrow> interiorColor (props s)) \<rparr>"
  "props (setHighlightColor ext pp s) =
     (props s)\<lparr> highlightColor := (case highlightColor' pp of Some x \<Rightarrow> x | None \<Rightarrow> highlightColor (props s)) \<rparr>"
  "props (setSelectColor ext pp s) =
     (props s)\<lparr> selectColor := (case selectColor' pp of Some x \<Rightarrow> x | None \<Rightarrow> selectColor (props s)) \<rparr>"
  "props (setStyle pp s) =
     (props s)\<lparr> pstyle := (case pstyle' pp of Some x \<Rightarrow> x | None \<Rightarrow> pstyle (props s)) \<rparr>"
  "props (setClip ext pp s) =
     (props s)\<lparr> pclip := (case pclip' pp of Some x \<Rightarrow> x | None \<Rightarrow> pclip (props s)) \<rparr>"
  by (simp_all add: setBackgroundColor_def setPickingAlphaThreshold_def setInteriorDarkening_def
        setInteriorColorFlag_def setInteriorColor_def setHighlightColor_def setSelectColor_def
        setStyle_def setClip_def updateUniforms_def Let_def split: option.splits)

lemma props_setProps: "props (setProps ext pp s) = mergeProps (props s) pp"
  by (simp add: setProps_def props_steps mergeProps_def cong: option.case_cong)

lemma unchanged_steps:
  "backgroundColor' pp \<in> {None, Some (backgroundColor (props s))} \<Longrightarrow> setBackgroundColor ext pp s = s"
  "pickingAlphaThreshold' pp \<in> {None, Some (pickingAlphaThreshold (props s))} \<Longrightarrow> setPickingAlphaThreshold pp s = s"
  "interiorDarkening' pp \<in> {None, Some (interiorDarkening (props s))} \<Longrightarrow> setInteriorDarkening pp s = s"
  "interiorColorFlag' pp \<in> {None, Some (interiorColorFlag (props s))} \<Longrightarrow> setInteriorColorFlag pp s = s"
  "interiorColor' pp \<in> {None, Some (interiorColor (props s))} \<Longrightarrow> setInteriorColor ext pp s = s"
  "highlightColor' pp \<in> {None, Some (highlightColor (props s))} \<Longrightarrow> setHighlightColor ext pp s = s"
  "selectColor' pp \<in> {None, Some (selectColor (props s))} \<Longrightarrow> setSelectColor ext pp s = s"
  "pclip' pp \<in> {None, Some (pclip (props s))} \<Longrightarrow> setClip ext pp s = s"
  by (auto simp add: setBackgroundColor_def setPickingAlphaThreshold_def setInteriorDarkening_def
        setInteriorColorFlag_def setInteriorColor_def setHighlightColor_def setSelectColor_def
        setClip_def)

lemma unchanged_style:
  assumes "styleInSync s" and "pstyle' pp \<in> {None, Some (pstyle (props s))}"
  shows "setStyle pp s = s"
proof (cases "pstyle' pp")
  case None
  then show ?thesis by (simp add: setStyle_def)
next
  case (Some x)
  with assms(2) have x: "x = pstyle (props s)" by simp
  have st: "getStyle (pstyle (props s)) = style s"
    using assms(1) by (simp add: styleInSync_def)
  have cells: "ValueCell_updateIfChanged ''uReflectivity'' (UNumber (reflectivity (style s)))
             (ValueCell_updateIfChanged ''uRoughness'' (UNumber (roughness (style s)))
               (ValueCell_updateIfChanged ''uMetalness'' (UNumber (metalness (style s)))
                 (ValueCell_updateIfChanged ''uAmbientIntensity'' (UNumber (ambientIntensity (style s)))
                   (ValueCell_updateIfChanged ''uLightIntensity'' (UNumber (lightIntensity (style s)))
                     (globalUniforms s))))) = globalUniforms s"
    using assms(1) by (simp add: styleInSync_def ValueCell_updateIfChanged_def)
  show ?thesis
    by (simp add: setStyle_def Some x st Let_def updateUniforms_def cells)
qed

lemma unchanged_setProps:
  assumes "styleInSync s" and "unchangedProps (props s) pp"
  shows "setProps ext pp s = s"
  using assms(2) unfolding unchangedProps_def setProps_def
  by (simp only: unchanged_steps unchanged_style[OF assms(1)])

lemma styleInSync_create: "styleInSync (create ext ctx pp h)"
  by (simp add: styleInSync_def create_def Let_def cellsOf_def initialUniforms_def
        ValueCell_create_def)

lemma cell_update_other:
  "k' \<noteq> k \<Longrightarrow> ValueCell_update k v cells k' = cells k'"
  by (simp add: ValueCell_update_def)

lemma styleInSync_steps:
  "styleInSync s \<Longrightarrow> styleInSync (setBackgroundColor ext pp s)"
  "styleInSync s \<Longrightarrow> styleInSync (setPickingAlphaThreshold pp s)"
  "styleInSync s \<Longrightarrow> styleInSync (setInteriorDarkening pp s)"
  "styleInSync s \<Longrightarrow> styleInSync (setInteriorColorFlag pp s)"
  "styleInSync s \<Longrightarrow> styleInSync (setInteriorColor ext pp s)"
  "styleInSync s \<Longrightarrow> styleInSync (setHighlightColor ext pp s)"
  "styleInSync s \<Longrightarrow> styleInSync (setSelectColor ext pp s)"
  "styleInSync s \<Longrightarrow> styleInSync (setClip ext pp s)"
  by (simp_all add: styleInSync_def setBackgroundColor_def setPickingAlphaThreshold_def
        setInteriorDarkening_def setInteriorColorFlag_def setInteriorColor_def
        setHighlightColor_def setSelectColor_def setClip_def updateUniforms_def Let_def
        cell_update_other split: option.splits)

lemma cell_updateIfChanged:
  "cellValue (ValueCell_updateIfChanged k v cells k') = (if k' = k then v else cellValue (cells k'))"
  by (simp add: ValueCell_updateIfChanged_def ValueCell_update_def)

lemma styleInSync_setStyle: "styleInSync s \<Longrightarrow> styleInSync (setStyle pp s)"
  by (simp add: styleInSync_def setStyle_def updateUniforms_def Let_def cell_updateIfChanged
        split: option.splits)

lemma styleInSync_setProps: "styleInSync s \<Longrightarrow> styleInSync (setProps ext pp s)"
  unfolding setProps_def by (intro styleInSync_steps styleInSync_setStyle)

lemma styleInSync_configured: "styleInSync s \<Longrightarrow> styleInSync (configured ext pps s)"
  by (induction pps arbitrary: s) (simp_all add: styleInSync_setProps)

subsection \<open>A renderer in use\<close>

lemma cell_updateIfChanged_other:
  "k' \<noteq> k \<Longrightarrow> ValueCell_updateIfChanged k v cells k' = cells k'"
  by (simp add: ValueCell_updateIfChanged_def ValueCell_update_def)

lemma styleInSync_emit: "styleInSync (emit es s) = styleInSync s"
  by (simp add: styleInSync_def emit_def)

lemma config_renderObject:
  "props (renderObject ext a v s) = props s"
  "style (renderObject ext a v s) = style s"
  "globalUniforms (renderObject ext a v s) = globalUniforms s"
  by (auto simp add: renderObject_def emit_def Let_def split: prod.splits)

lemma styleInSync_renderObject: "styleInSync (renderObject ext a v s) = styleInSync s"
  by (simp add: styleInSync_def config_renderObject)

lemma styleInSync_forEach: "styleInSync (forEachRenderable ext cond v as s) = styleInSync s"
  by (induction as arbitrary: s) (simp_all add: styleInSync_renderObject)

lemma styleInSync_updateInternal: "styleInSync (updateInternal ext g cam dt w s) = styleInSync s"
  by (simp add: styleInSync_def updateInternal_def updateUniforms_def emit_def Let_def
        cell_update_other cell_updateIfChanged_other)

lemma styleInSync_update: "styleInSync (update ext cam s) = styleInSync s"
  by (simp add: styleInSync_def update_def updateUniforms_def
        cell_update_other cell_updateIfChanged_other)

lemma styleInSync_methods:
  "styleInSync (setViewport x y w h' s) = styleInSync s"
  "styleInSync (setTransparentBackground b s) = styleInSync s"
  "styleInSync (setDrawingBufferSize w h' s) = styleInSync s"
  "styleInSync (clear b s) = styleInSync s"
  "styleInSync (clearDepth s) = styleInSync s"
  by (simp_all add: styleInSync_def setViewport_def setTransparentBackground_def
        setDrawingBufferSize_def clear_def clearDepth_def updateUniforms_def emit_def Let_def
        cell_update_other)

lemma styleInSync_passes:
  "styleInSync (renderPick ext g cam v dt s) = styleInSync s"
  "styleInSync (renderDepth ext g cam dt s) = styleInSync s"
  "styleInSync (renderBlendedOpaque ext g cam dt s) = styleInSync s"
  "styleInSync (renderBlendedTransparent ext g cam dt s) = styleInSync s"
  "styleInSync (renderBlendedVolume ext g cam dt s) = styleInSync s"
  "styleInSync (renderWboitOpaque ext g cam dt s) = styleInSync s"
  "styleInSync (renderWboitTransparent ext g cam dt s) = styleInSync s"
  by (simp_all only: pass_forms renderBlendedTransparent_loops secondStart_def firstSubPass_def
        transparentStart_def passStart_def styleInSync_forEach styleInSync_updateInternal
        styleInSync_emit)

lemma styleInSync_renderBlended: "styleInSync (renderBlended ext g cam dt s) = styleInSync s"
  by (simp add: renderBlended_def styleInSync_passes)

lemma styleInSync_world:
  "styleInSync (s\<lparr> currentProgramId := q \<rparr>) = styleInSync s"
  "styleInSync (s\<lparr> heap := h \<rparr>) = styleInSync s"
  "styleInSync (s\<lparr> currentProgramId := q, currentRenderItemId := i, heap := h, trace := t \<rparr>) = styleInSync s"
  by (simp_all add: styleInSync_def)

lemma styleInSync_depthMerge: "styleInSync (DrawPass_depthMerge dp s) = styleInSync s"
  by (simp add: DrawPass_depthMerge_def styleInSync_world styleInSync_emit)

lemma styleInSync_DrawPass_renderWboit:
  "DrawPass_renderWboit ext dp cam sc tdb s = Inr s' \<Longrightarrow> styleInSync s' = styleInSync s"
  by (auto simp add: DrawPass_renderWboit_def Let_def styleInSync_world styleInSync_emit
        styleInSync_passes styleInSync_methods styleInSync_depthMerge
        split: option.splits if_splits)

lemma styleInSync_DrawPass_renderBlended:
  "styleInSync (DrawPass_renderBlended ext dp cam sc tdb s) = styleInSync s"
  by (simp add: DrawPass_renderBlended_def Let_def styleInSync_emit
        styleInSync_passes styleInSync_methods styleInSync_depthMerge
        split: option.splits)

lemma styleInSync_DrawPass_render1:
  assumes "DrawPass_render1 ext dp cam sc hp tdb s = Inr (hp', s')"
  shows "styleInSync s' = styleInSync s"
proof -
  let ?s1 = "update ext cam (setViewport (vx (cviewport cam)) (vy (cviewport cam))
                (vwidth (cviewport cam)) (vheight (cviewport cam)) s)"
  have 1: "styleInSync ?s1 = styleInSync s"
    by (simp add: styleInSync_update styleInSync_methods)
  obtain s2 where 2: "(if wboitEnabled dp
               then DrawPass_renderWboit ext dp cam sc tdb ?s1
               else Inr (DrawPass_renderBlended ext dp cam sc tdb ?s1)) = Inr s2"
    using assms by (auto simp add: DrawPass_render1_def Let_def split: sum.splits)
  have 3: "styleInSync s2 = styleInSync s"
    using 2 1 styleInSync_DrawPass_renderWboit[of ext dp cam sc tdb ?s1 s2]
    by (auto simp add: styleInSync_DrawPass_renderBlended split: if_splits)
  from assms 2 have "s' = emit [Flush]
      (let s3 = (if isEnabled (debug hp)
                       then renderBlended ext (sceneGroup (hscene (debug hp))) cam None
                              ((emit [SyncVisibility] s2)\<lparr> heap := syncVisibility ext (heap s2) \<rparr>)
                       else s2);
           s4 = (if isEnabled (handle hp)
                       then renderBlended ext (sceneGroup (hscene (handle hp))) cam None s3
                       else s3)
       in (if isEnabled (chelper hp)
                       then renderBlended ext (sceneGroup (hscene (chelper hp)))
                              (helperCameraUpdate ext (hcamera (chelper hp)) cam) None
                              (update ext (helperCameraUpdate ext (hcamera (chelper hp)) cam) s4)
                       else s4))"
    by (simp add: DrawPass_render1_def Let_def)
  then show ?thesis
    by (simp add: Let_def styleInSync_emit styleInSync_renderBlended styleInSync_update
          styleInSync_world 3)
qed

lemma styleInSync_DrawPass_render:
  assumes "DrawPass_render ext dp c sc hp tdb tbg s = Inr (hp', s')"
  shows "styleInSync s' = styleInSync s"
proof -
  let ?s1 = "setDrawingBufferSize (getWidth dp (colorTarget dp)) (getHeight dp (colorTarget dp))
                 (setTransparentBackground tbg s)"
  have 1: "styleInSync ?s1 = styleInSync s"
    by (simp add: styleInSync_methods)
  show ?thesis
  proof (cases c)
    case (Mono cam)
    with assms have "DrawPass_render1 ext dp cam sc hp tdb ?s1 = Inr (hp', s')"
      by (simp add: DrawPass_render_def Let_def)
    from styleInSync_DrawPass_render1[OF this] 1 show ?thesis by simp
  next
    case (Stereo left right)
    with assms obtain hp1 s2 where
      a: "DrawPass_render1 ext dp left sc hp tdb ?s1 = Inr (hp1, s2)"
      and b: "DrawPass_render1 ext dp right sc hp1 tdb s2 = Inr (hp', s')"
      by (auto simp add: DrawPass_render_def Let_def split: sum.splits)
    from styleInSync_DrawPass_render1[OF a] styleInSync_DrawPass_render1[OF b] 1
    show ?thesis by simp
  qed
qed

lemma inUse_styleInSync: "inUse ext s \<Longrightarrow> styleInSync s"
proof (induction rule: inUse.induct)
  case (17 s dp c sc hp toDrawingBuffer transparentBg hp' s')
  then show ?case by (simp add: styleInSync_DrawPass_render)
qed (simp_all add: styleInSync_create styleInSync_setProps styleInSync_methods styleInSync_update
      styleInSync_passes styleInSync_renderBlended styleInSync_world)

lemma inUse_configured: "inUse ext s \<Longrightarrow> inUse ext (configured ext pps s)"
  by (induction pps arbitrary: s) (simp_all add: inUse.intros)

lemma cells_steps:
  "k \<noteq> ''uFogColor'' \<Longrightarrow> globalUniforms (setBackgroundColor ext pp s) k = globalUniforms s k"
  "k \<noteq> ''uPickingAlphaThreshold'' \<Longrightarrow> globalUniforms (setPickingAlphaThreshold pp s) k = globalUniforms s k"
  "k \<noteq> ''uInteriorDarkening'' \<Longrightarrow> globalUniforms (setInteriorDarkening pp s) k = globalUniforms s k"
  "k \<noteq> ''uInteriorColorFlag'' \<Longrightarrow> globalUniforms (setInteriorColorFlag pp s) k = globalUniforms s k"
  "k \<noteq> ''uInteriorColor'' \<Longrightarrow> globalUniforms (setInteriorColor ext pp s) k = globalUniforms s k"
  "k \<noteq> ''uHighlightColor'' \<Longrightarrow> globalUniforms (setHighlightColor ext pp s) k = globalUniforms s k"
  "k \<noteq> ''uSelectColor'' \<Longrightarrow> globalUniforms (setSelectColor ext pp s) k = globalUniforms s k"
  "k \<notin> {''uLightIntensity'', ''uAmbientIntensity'', ''uMetalness'', ''uRoughness'', ''uReflectivity''}
     \<Longrightarrow> globalUniforms (setStyle pp s) k = globalUniforms s k"
  "k \<notin> {''uClipObjectPosition'', ''uClipObjectRotation'', ''uClipObjectScale'', ''uClipObjectType''}
     \<Longrightarrow> globalUniforms (setClip ext pp s) k = globalUniforms s k"
  by (simp_all add: setBackgroundColor_def setPickingAlphaThreshold_def setInteriorDarkening_def
        setInteriorColorFlag_def setInteriorColor_def setHighlightColor_def setSelectColor_def
        setStyle_def setClip_def updateUniforms_def Let_def cell_update_other
        cell_updateIfChanged_other split: option.splits)

lemma frame_backgroundColor:
  assumes "backgroundColor' pp \<in> {None, Some (backgroundColor (props s))}"
  shows "globalUniforms (setProps ext pp s) ''uFogColor'' = globalUniforms s ''uFogColor''"
  using unchanged_steps(1)[OF assms, of ext] by (simp add: setProps_def cells_steps)

lemma frame_pickingAlphaThreshold:
  assumes "pickingAlphaThreshold' pp \<in> {None, Some (pickingAlphaThreshold (props s))}"
  shows "globalUniforms (setProps ext pp s) ''uPickingAlphaThreshold'' =
         globalUniforms s ''uPickingAlphaThreshold''"
proof -
  let ?t = "setBackgroundColor ext pp s"
  have "pickingAlphaThreshold' pp \<in> {None, Some (pickingAlphaThreshold (props ?t))}"
    using assms by (simp add: props_steps)
  from unchanged_steps(2)[OF this] show ?thesis
    by (simp add: setProps_def cells_steps)
qed

lemma frame_interiorDarkening:
  assumes "interiorDarkening' pp \<in> {None, Some (interiorDarkening (props s))}"
  shows "globalUniforms (setProps ext pp s) ''uInteriorDarkening'' =
         globalUniforms s ''uInteriorDarkening''"
proof -
  let ?t = "setPickingAlphaThreshold pp (setBackgroundColor ext pp s)"
  have "interiorDarkening' pp \<in> {None, Some (interiorDarkening (props ?t))}"
    using assms by (simp add: props_steps)
  from unchanged_steps(3)[OF this] show ?thesis
    by (simp add: setProps_def cells_steps)
qed

lemma frame_interiorColorFlag:
  assumes "interiorColorFlag' pp \<in> {None, Some (interiorColorFlag (props s))}"
  shows "globalUniforms (setProps ext pp s) ''uInteriorColorFlag'' =
         globalUniforms s ''uInteriorColorFlag''"
proof -
  let ?t = "setInteriorDarkening pp (setPickingAlphaThreshold pp (setBackgroundColor ext pp s))"
  have "interiorColorFlag' pp \<in> {None, Some (interiorColorFlag (props ?t))}"
    using assms by (simp add: props_steps)
  from unchanged_steps(4)[OF this] show ?thesis
    by (simp add: setProps_def cells_steps)
qed

lemma frame_interiorColor:
  assumes "interiorColor' pp \<in> {None, Some (interiorColor (props s))}"
  shows "globalUniforms (setProps ext pp s) ''uInteriorColor'' = globalUniforms s ''uInteriorColor''"
proof -
  let ?t = "setInteriorColorFlag pp (setInteriorDarkening pp (setPickingAlphaThreshold pp
              (setBackgroundColor ext pp s)))"
  have "interiorColor' pp \<in> {None, Some (interiorColor (props ?t))}"
    using assms by (simp add: props_steps)
  from unchanged_steps(5)[OF this, of ext] show ?thesis
    by (simp add: setProps_def cells_steps)
qed

lemma frame_highlightColor:
  assumes "highlightColor' pp \<in> {None, Some (highlightColor (props s))}"
  shows "globalUniforms (setProps ext pp s) ''uHighlightColor'' = globalUniforms s ''uHighlightColor''"
proof -
  let ?t = "setInteriorColor ext pp (setInteriorColorFlag pp (setInteriorDarkening pp
              (setPickingAlphaThreshold pp (setBackgroundColor ext pp s))))"
  have "highlightColor' pp \<in> {None, Some (highlightColor (props ?t))}"
    using assms by (simp add: props_steps)
  from unchanged_steps(6)[OF this, of ext] show ?thesis
    by (simp add: setProps_def cells_steps)
qed

lemma frame_selectColor:
  assumes "selectColor' pp \<in> {None, Some (selectColor (props s))}"
  shows "globalUniforms (setProps ext pp s) ''uSelectColor'' = globalUniforms s ''uSelectColor''"
proof -
  let ?t = "setHighlightColor ext pp (setInteriorColor ext pp (setInteriorColorFlag pp
              (setInteriorDarkening pp (setPickingAlphaThreshold pp (setBackgroundColor ext pp s)))))"
  have "selectColor' pp \<in> {None, Some (selectColor (props ?t))}"
    using assms by (simp add: props_steps)
  from unchanged_steps(7)[OF this, of ext] show ?thesis
    by (simp add: setProps_def cells_steps)
qed

lemma frame_style:
  assumes "styleInSync s" and "pstyle' pp \<in> {None, Some (pstyle (props s))}"
    and "k \<in> {''uLightIntensity'', ''uAmbientIntensity'', ''uMetalness'', ''uRoughness'', ''uReflectivity''}"
  shows "globalUniforms (setProps ext pp s) k = globalUniforms s k"
proof -
  let ?t = "setSelectColor ext pp (setHighlightColor ext pp (setInteriorColor ext pp
              (setInteriorColorFlag pp (setInteriorDarkening pp (setPickingAlphaThreshold pp
                (setBackgroundColor ext pp s))))))"
  have 1: "styleInSync ?t"
    by (intro styleInSync_steps assms(1))
  have 2: "pstyle' pp \<in> {None, Some (pstyle (props ?t))}"
    using assms(2) by (simp add: props_steps)
  have 3: "globalUniforms ?t k = globalUniforms s k"
    using assms(3) by (auto simp add: cells_steps)
  have 4: "globalUniforms (setClip ext pp ?t) k = globalUniforms ?t k"
    using assms(3) by (auto simp add: cells_steps)
  show ?thesis
    unfolding setProps_def unchanged_style[OF 1 2] by (simp only: 3 4)
qed

lemma frame_clip:
  assumes "pclip' pp \<in> {None, Some (pclip (props s))}"
    and "k \<in> {''uClipObjectPosition'', ''uClipObjectRotation'', ''uClipObjectScale'', ''uClipObjectType''}"
  shows "globalUniforms (setProps ext pp s) k = globalUniforms s k"
proof -
  let ?t = "setStyle pp (setSelectColor ext pp (setHighlightColor ext pp (setInteriorColor ext pp
              (setInteriorColorFlag pp (setInteriorDarkening pp (setPickingAlphaThreshold pp
                (setBackgroundColor ext pp s)))))))"
  have 2: "pclip' pp \<in> {None, Some (pclip (props ?t))}"
    using assms(1) by (simp add: props_steps)
  have 3: "globalUniforms ?t k = globalUniforms s k"
    using assms(2) by (auto simp add: cells_steps)
  show ?thesis
    unfolding setProps_def unchanged_steps(8)[OF 2] by (rule 3)
qed


lemma props_forEach: "props (forEachRenderable ext cond v as s) = props s"
  by (induction as arbitrary: s) (simp_all add: config_renderObject)

lemma props_renderDepth: "props (renderDepth ext g cam dt s) = props s"
  by (simp add: renderDepth_def props_forEach updateInternal_def updateUniforms_def emit_def Let_def)

lemma props_setViewport: "props (setViewport x y w h' s) = props s"
  by (simp add: setViewport_def updateUniforms_def emit_def Let_def)

lemma props_create: "props (create ext ctx pp h) = mergeProps (defaultProps ext) pp"
  by (simp add: create_def Let_def)

lemma props_usedRenderer:
  "interiorColor (props usedRenderer) = 0.3" "pstyle (props usedRenderer) = Glossy"
  "highlightColor (props usedRenderer) = 1"
  by (simp_all add: usedRenderer_def props_renderDepth props_setViewport props_setProps
        sampleRenderer_def props_create mergeProps_def defaultProps_def noProps_def
        sampleExternals_def)

text \<open>
  Claim C7. For a renderer in use, that is, as \<^verbatim>\<open>Renderer.create\<close> made it and any
  calls of its methods and of the draw pass left it: after \<^verbatim>\<open>setProps\<close>, \<^verbatim>\<open>props\<close>
  holds every value that the call gave, for each of the nine fields, and the former value
  of every field that the call did not give. A field that the call does not give, or gives
  with its current value, leaves the cells of the global uniforms that depend on it as they
  were, value and version, whatever the call does to the other fields; and when every
  value that the call gives is the current one, \<^verbatim>\<open>setProps\<close> returns the renderer
  unchanged.
\<close>

theorem setProps_roundtrip:
  assumes "inUse ext s"
  shows "(backgroundColor' pp = Some x1 \<longrightarrow> backgroundColor (props (setProps ext pp s)) = x1)
       \<and> (pickingAlphaThreshold' pp = Some x2 \<longrightarrow> pickingAlphaThreshold (props (setProps ext pp s)) = x2)
       \<and> (interiorDarkening' pp = Some x3 \<longrightarrow> interiorDarkening (props (setProps ext pp s)) = x3)
       \<and> (interiorColorFlag' pp = Some x4 \<longrightarrow> interiorColorFlag (props (setProps ext pp s)) = x4)
       \<and> (interiorColor' pp = Some x5 \<longrightarrow> interiorColor (props (setProps ext pp s)) = x5)
       \<and> (highlightColor' pp = Some x6 \<longrightarrow> highlightColor (props (setProps ext pp s)) = x6)
       \<and> (selectColor' pp = Some x7 \<longrightarrow> selectColor (props (setProps ext pp s)) = x7)
       \<and> (pstyle' pp = Some x8 \<longrightarrow> pstyle (props (setProps ext pp s)) = x8)
       \<and> (pclip' pp = Some x9 \<longrightarrow> pclip (props (setProps ext pp s)) = x9)
       \<and> props (setProps ext pp s) = mergeProps (props s) pp
       \<and> (unchangedProps (props s) pp \<longrightarrow>
            setProps ext pp s = s \<and> globalUniforms (setProps ext pp s) = globalUniforms s)
       \<and> (backgroundColor' pp \<in> {None, Some (backgroundColor (props s))} \<longrightarrow>
            globalUniforms (setProps ext pp s) ''uFogColor'' = globalUniforms s ''uFogColor'')
       \<and> (pickingAlphaThreshold' pp \<in> {None, Some (pickingAlphaThreshold (props s))} \<longrightarrow>
            globalUniforms (setProps ext pp s) ''uPickingAlphaThreshold'' =
            globalUniforms s ''uPickingAlphaThreshold'')
       \<and> (interiorDarkening' pp \<in> {None, Some (interiorDarkening (props s))} \<longrightarrow>
            globalUniforms (setProps ext pp s) ''uInteriorDarkening'' =
            globalUniforms s ''uInteriorDarkening'')
       \<and> (interiorColorFlag' pp \<in> {None, Some (interiorColorFlag (props s))} \<longrightarrow>
            globalUniforms (setProps ext pp s) ''uInteriorColorFlag'' =
            globalUniforms s ''uInteriorColorFlag'')
       \<and> (interiorColor' pp \<in> {None, Some (interiorColor (props s))} \<longrightarrow>
            globalUniforms (setProps ext pp s) ''uInteriorColor'' = globalUniforms s ''uInteriorColor'')
       \<and> (highlightColor' pp \<in> {None, Some (highlightColor (props s))} \<longrightarrow>
            globalUniforms (setProps ext pp s) ''uHighlightColor'' = globalUniforms s ''uHighlightColor'')
       \<and> (selectColor' pp \<in> {None, Some (selectColor (props s))} \<longrightarrow>
            globalUniforms (setProps ext pp s) ''uSelectColor'' = globalUniforms s ''uSelectColor'')
       \<and> (pstyle' pp \<in> {None, Some (pstyle (props s))} \<longrightarrow>
            (\<forall>k \<in> {''uLightIntensity'', ''uAmbientIntensity'', ''uMetalness'', ''uRoughness'',
                    ''uReflectivity''}.
               globalUniforms (setProps ext pp s) k = globalUniforms s k))
       \<and> (pclip' pp \<in> {None, Some (pclip (props s))} \<longrightarrow>
            (\<forall>k \<in> {''uClipObjectPosition'', ''uClipObjectRotation'', ''uClipObjectScale'',
                    ''uClipObjectType''}.
               globalUniforms (setProps ext pp s) k = globalUniforms s k))"
proof -
  have sync: "styleInSync s"
    using assms by (rule inUse_styleInSync)
  have u: "unchangedProps (props s) pp \<Longrightarrow> setProps ext pp s = s"
    using sync by (rule unchanged_setProps)
  have r: "(backgroundColor' pp = Some x1 \<longrightarrow> backgroundColor (props (setProps ext pp s)) = x1)
       \<and> (pickingAlphaThreshold' pp = Some x2 \<longrightarrow> pickingAlphaThreshold (props (setProps ext pp s)) = x2)
       \<and> (interiorDarkening' pp = Some x3 \<longrightarrow> interiorDarkening (props (setProps ext pp s)) = x3)
       \<and> (interiorColorFlag' pp = Some x4 \<longrightarrow> interiorColorFlag (props (setProps ext pp s)) = x4)
       \<and> (interiorColor' pp = Some x5 \<longrightarrow> interiorColor (props (setProps ext pp s)) = x5)
       \<and> (highlightColor' pp = Some x6 \<longrightarrow> highlightColor (props (setProps ext pp s)) = x6)
       \<and> (selectColor' pp = Some x7 \<longrightarrow> selectColor (props (setProps ext pp s)) = x7)
       \<and> (pstyle' pp = Some x8 \<longrightarrow> pstyle (props (setProps ext pp s)) = x8)
       \<and> (pclip' pp = Some x9 \<longrightarrow> pclip (props (setProps ext pp s)) = x9)
       \<and> props (setProps ext pp s) = mergeProps (props s) pp
       \<and> (unchangedProps (props s) pp \<longrightarrow>
            setProps ext pp s = s \<and> globalUniforms (setProps ext pp s) = globalUniforms s)"
    using u by (auto simp add: props_setProps mergeProps_def)
  have f: "(backgroundColor' pp \<in> {None, Some (backgroundColor (props s))} \<longrightarrow>
            globalUniforms (setProps ext pp s) ''uFogColor'' = globalUniforms s ''uFogColor'')
       \<and> (pickingAlphaThreshold' pp \<in> {None, Some (pickingAlphaThreshold (props s))} \<longrightarrow>
            globalUniforms (setProps ext pp s) ''uPickingAlphaThreshold'' =
            globalUniforms s ''uPickingAlphaThreshold'')
       \<and> (interiorDarkening' pp \<in> {None, Some (interiorDarkening (props s))} \<longrightarrow>
            globalUniforms (setProps ext pp s) ''uInteriorDarkening'' =
            globalUniforms s ''uInteriorDarkening'')
       \<and> (interiorColorFlag' pp \<in> {None, Some (interiorColorFlag (props s))} \<longrightarrow>
            globalUniforms (setProps ext pp s) ''uInteriorColorFlag'' =
            globalUniforms s ''uInteriorColorFlag'')
       \<and> (interiorColor' pp \<in> {None, Some (interiorColor (props s))} \<longrightarrow>
            globalUniforms (setProps ext pp s) ''uInteriorColor'' = globalUniforms s ''uInteriorColor'')
       \<and> (highlightColor' pp \<in> {None, Some (highlightColor (props s))} \<longrightarrow>
            globalUniforms (setProps ext pp s) ''uHighlightColor'' = globalUniforms s ''uHighlightColor'')
       \<and> (selectColor' pp \<in> {None, Some (selectColor (props s))} \<longrightarrow>
            globalUniforms (setProps ext pp s) ''uSelectColor'' = globalUniforms s ''uSelectColor'')
       \<and> (pstyle' pp \<in> {None, Some (pstyle (props s))} \<longrightarrow>
            (\<forall>k \<in> {''uLightIntensity'', ''uAmbientIntensity'', ''uMetalness'', ''uRoughness'',
                    ''uReflectivity''}.
               globalUniforms (setProps ext pp s) k = globalUniforms s k))
       \<and> (pclip' pp \<in> {None, Some (pclip (props s))} \<longrightarrow>
            (\<forall>k \<in> {''uClipObjectPosition'', ''uClipObjectRotation'', ''uClipObjectScale'',
                    ''uClipObjectType''}.
               globalUniforms (setProps ext pp s) k = globalUniforms s k))"
    by (intro conjI impI ballI frame_backgroundColor frame_pickingAlphaThreshold
          frame_interiorDarkening frame_interiorColorFlag frame_interiorColor
          frame_highlightColor frame_selectColor frame_style[OF sync] frame_clip)
  from r f show ?thesis
    by (elim conjE) (intro conjI; assumption)
qed

text \<open>A renderer that was given the glossy style, a viewport, and has drawn the depth of
  a mesh. A call that gives the current interior colour, a new highlight colour and the
  glossy style again: the highlight colour is read back, the cell of the interior colour
  and the cells of the style are not updated; and giving only the glossy style again
  changes nothing.\<close>

theorem setProps_roundtrip_witness:
  "highlightColor (props usedRenderer) \<noteq> 255
   \<and> highlightColor (props (setProps sampleExternals mixedProps usedRenderer)) = 255
   \<and> globalUniforms (setProps sampleExternals mixedProps usedRenderer) ''uInteriorColor'' =
       globalUniforms usedRenderer ''uInteriorColor''
   \<and> globalUniforms (setProps sampleExternals mixedProps usedRenderer) ''uRoughness'' =
       globalUniforms usedRenderer ''uRoughness''
   \<and> setProps sampleExternals (noProps\<lparr> pstyle' := Some Glossy \<rparr>) usedRenderer = usedRenderer"
proof -
  have u: "inUse sampleExternals usedRenderer"
    unfolding usedRenderer_def sampleRenderer_def configured.simps
    by (intro inUse.intros(1,2,3,10))
  note t = setProps_roundtrip[OF u, where pp = mixedProps and ?x6.0 = 255]
  note t' = setProps_roundtrip[OF u, where pp = "noProps\<lparr> pstyle' := Some Glossy \<rparr>"]
  note t5 = t[THEN conjunct2, THEN conjunct2, THEN conjunct2, THEN conjunct2, THEN conjunct2]
  note t10 = t5[THEN conjunct2, THEN conjunct2, THEN conjunct2, THEN conjunct2, THEN conjunct2]
  note t15 = t10[THEN conjunct2, THEN conjunct2, THEN conjunct2, THEN conjunct2, THEN conjunct2]
  note t'10 = t'[THEN conjunct2, THEN conjunct2, THEN conjunct2, THEN conjunct2, THEN conjunct2,
                 THEN conjunct2, THEN conjunct2, THEN conjunct2, THEN conjunct2, THEN conjunct2]
  have 0: "highlightColor (props usedRenderer) \<noteq> 255"
    by (simp add: props_usedRenderer)
  have a: "highlightColor' mixedProps = Some 255"
    "interiorColor' mixedProps \<in> {None, Some (interiorColor (props usedRenderer))}"
    "pstyle' mixedProps \<in> {None, Some (pstyle (props usedRenderer))}"
    by (simp_all add: mixedProps_def noProps_def props_usedRenderer)
  have b: "unchangedProps (props usedRenderer) (noProps\<lparr> pstyle' := Some Glossy \<rparr>)"
    by (simp add: unchangedProps_def noProps_def props_usedRenderer)
  have 1: "highlightColor (props (setProps sampleExternals mixedProps usedRenderer)) = 255"
    by (rule mp[OF t5[THEN conjunct1] a(1)])
  have 2: "globalUniforms (setProps sampleExternals mixedProps usedRenderer) ''uInteriorColor'' =
       globalUniforms usedRenderer ''uInteriorColor''"
    by (rule mp[OF t15[THEN conjunct1] a(2)])
  have 3: "globalUniforms (setProps sampleExternals mixedProps usedRenderer) ''uRoughness'' =
       globalUniforms usedRenderer ''uRoughness''"
    using mp[OF t15[THEN conjunct2, THEN conjunct2, THEN conjunct2, THEN conjunct1] a(3)] by simp
  have 4: "setProps sampleExternals (noProps\<lparr> pstyle' := Some Glossy \<rparr>) usedRenderer = usedRenderer"
    by (rule conjunct1[OF mp[OF t'10[THEN conjunct1] b]])
  from 0 1 2 3 4 show ?thesis by (intro conjI)
qed

end
